(* ===== verification/Prelude.thy ===== *)
theory Prelude
  imports Complex_Main
begin

text \<open>
  Shared vocabulary of the development. It names the model's Python types, including
  \<open>py_result\<close>, the result of a call that may raise, with the exception's text. It gives
  Python's \<open>range\<close> as an \<open>int list\<close>. It proves the generic facts
  about lists and folds that the component theories use to turn the source's \<open>for\<close>
  loops, which append to the drawing trace, into closed list expressions. The collection
  \<open>trace_simps\<close> gathers these rewrite rules so that the component proofs can write
  \<open>simp add: trace_simps\<close>.
\<close>

named_theorems trace_simps "rewrite rules that turn drawing loops into closed traces"

type_synonym pystr = "nat list"
  \<comment> \<open>a Python \<open>str\<close>: its sequence of Unicode code points\<close>

type_synonym path = pystr
  \<comment> \<open>a file path, a Python \<open>str\<close>\<close>

type_synonym bbox = "int \<times> int \<times> int \<times> int"
  \<comment> \<open>a bounding box \<open>(left, top, right, bottom)\<close> as Pillow returns it\<close>

definition pystr_of :: "string \<Rightarrow> pystr" where
  "pystr_of s = map of_char s"
  \<comment> \<open>the code points of an ASCII literal, for stating concrete inputs\<close>

type_synonym 'a py_result = "pystr + 'a"
  \<comment> \<open>a call that returns an \<open>'a\<close> (\<open>Inr\<close>) or raises an exception whose \<open>str(e)\<close> is the \<open>Inl\<close> text\<close>

definition py_range :: "int \<Rightarrow> int \<Rightarrow> int list" where
  "py_range a b = [a..b - 1]"
  \<comment> \<open>Python \<open>range(a, b)\<close> with step 1: empty when \<open>b \<le> a\<close>\<close>

subsection \<open>Python ranges\<close>

lemma py_range_length [simp]: "length (py_range a b) = nat (b - a)"
  by (simp add: py_range_def)

lemma py_range_set [simp]: "set (py_range a b) = {a..<b}"
  by (auto simp: py_range_def)

lemma py_range_distinct [simp]: "distinct (py_range a b)"
  by (simp add: py_range_def)

lemma py_range_empty_iff: "py_range a b = [] \<longleftrightarrow> b \<le> a"
  by (auto simp: py_range_def)

lemma py_range_symmetric_length:
  "0 \<le> w \<Longrightarrow> length (py_range (- w) (w + 1)) = nat (2 * w + 1)"
  by simp

subsection \<open>Loops that append to a trace\<close>

text \<open>
  A Python loop \<open>for x in xs: trace.append(f x)\<close> is the fold below; its closed form is
  the trace followed by \<open>map f xs\<close>. A nested loop is a fold of such folds, and its closed
  form is a \<open>concat\<close> of \<open>map\<close>s.
\<close>

lemma fold_append_single [trace_simps]:
  "fold (\<lambda>x acc. acc @ [f x]) xs acc = acc @ map f xs"
  by (induction xs arbitrary: acc) auto

lemma fold_append_block [trace_simps]:
  "fold (\<lambda>x acc. acc @ g x) xs acc = acc @ concat (map g xs)"
  by (induction xs arbitrary: acc) auto

lemma length_concat_map_const:
  "(\<And>x. x \<in> set xs \<Longrightarrow> length (g x) = k) \<Longrightarrow> length (concat (map g xs)) = length xs * k"
  by (induction xs) auto

lemma concat_map_map_pairs:
  "concat (map (\<lambda>a. map (\<lambda>b. f a b) ys) xs) = map (\<lambda>(a, b). f a b) (List.product xs ys)"
  by (induction xs) auto

end
