(* ===== verification/PyStr.thy ===== *)
theory PyStr
  imports Prelude
begin

text \<open>
  Python's string whitespace test and \<open>str.strip()\<close>, which the content loop of
  \<open>create_styled_text_image\<close> uses to tell blank lines from text
  (\<open>src/demo4.py\<close>, line 97). A Python \<open>str\<close> is a list of code points
  (\<open>pystr\<close>). \<open>py_isspace\<close> is CPython's \<open>str.isspace\<close> on one code point. It
  holds for the ASCII controls 9 to 13 and 28 to 31, the space, NEL, NBSP, the
  Ogham space, the general-punctuation spaces 0x2000 to 0x200A, the line and
  paragraph separators, NNBSP, MMSP and the ideographic space U+3000 that
  Chinese text uses. \<open>py_strip\<close> follows CPython's \<open>do_strip\<close>: it drops the
  whitespace at both ends.
\<close>

definition py_isspace :: "nat \<Rightarrow> bool" where
  "py_isspace c \<longleftrightarrow>
     (9 \<le> c \<and> c \<le> 13) \<or> (28 \<le> c \<and> c \<le> 32) \<or> c = 133 \<or> c = 160 \<or> c = 5760 \<or>
     (8192 \<le> c \<and> c \<le> 8202) \<or> c = 8232 \<or> c = 8233 \<or> c = 8239 \<or> c = 8287 \<or> c = 12288"

definition py_strip :: "pystr \<Rightarrow> pystr" where
  "py_strip s = rev (dropWhile py_isspace (rev (dropWhile py_isspace s)))"

definition line_nonblank :: "pystr \<Rightarrow> bool" where
  "line_nonblank line \<longleftrightarrow> py_strip line \<noteq> []"
  \<comment> \<open>\<open>if line.strip():\<close>, a \<open>str\<close> is true when it is not empty\<close>

subsection \<open>Strip\<close>

lemma dropWhile_eq_Nil_iff': "dropWhile P xs = [] \<longleftrightarrow> (\<forall>x \<in> set xs. P x)"
  by (induction xs) auto

lemma dropWhile_idem: "dropWhile P (dropWhile P xs) = dropWhile P xs"
  by (induction xs) auto

lemma py_strip_Nil_iff: "py_strip s = [] \<longleftrightarrow> (\<forall>c \<in> set s. py_isspace c)"
proof -
  have "py_strip s = [] \<longleftrightarrow> dropWhile py_isspace (rev (dropWhile py_isspace s)) = []"
    by (simp add: py_strip_def)
  also have "\<dots> \<longleftrightarrow> (\<forall>c \<in> set (dropWhile py_isspace s). py_isspace c)"
    by (simp add: dropWhile_eq_Nil_iff')
  also have "\<dots> \<longleftrightarrow> dropWhile py_isspace (dropWhile py_isspace s) = []"
    by (simp only: dropWhile_eq_Nil_iff')
  also have "\<dots> \<longleftrightarrow> (\<forall>c \<in> set s. py_isspace c)"
    by (simp add: dropWhile_idem dropWhile_eq_Nil_iff')
  finally show ?thesis .
qed

lemma py_strip_infix: "\<exists>pre suf. s = pre @ py_strip s @ suf"
proof -
  define t where "t = dropWhile py_isspace s"
  obtain pre where pre: "s = pre @ t"
    unfolding t_def by (metis takeWhile_dropWhile_id)
  obtain suf where suf: "rev t = rev suf @ dropWhile py_isspace (rev t)"
    by (metis rev_rev_ident takeWhile_dropWhile_id)
  have "t = rev (dropWhile py_isspace (rev t)) @ suf"
    by (metis rev_append rev_rev_ident suf)
  with pre have "s = pre @ py_strip s @ suf"
    by (simp add: py_strip_def t_def)
  then show ?thesis by blast
qed

lemma py_strip_ends:
  assumes "py_strip s \<noteq> []"
  shows "\<not> py_isspace (hd (py_strip s)) \<and> \<not> py_isspace (last (py_strip s))"
proof -
  let ?t = "dropWhile py_isspace s"
  let ?u = "dropWhile py_isspace (rev ?t)"
  from assms have u: "?u \<noteq> []" by (simp add: py_strip_def)
  then have last_ok: "\<not> py_isspace (last (rev ?u))"
    by (simp add: last_rev hd_dropWhile)
  from u have t: "?t \<noteq> []"
    by (metis Nil_is_rev_conv dropWhile.simps(1))
  have "rev ?u = take (length ?u) ?t"
  proof -
    have "rev ?t = takeWhile py_isspace (rev ?t) @ ?u" by simp
    then have "?t = rev ?u @ rev (takeWhile py_isspace (rev ?t))"
      by (metis rev_append rev_rev_ident)
    then show ?thesis by (metis append_eq_conv_conj length_rev)
  qed
  with u t have "hd (rev ?u) = hd ?t"
    by (metis hd_take length_greater_0_conv)
  moreover from t have "\<not> py_isspace (hd ?t)" by (simp add: hd_dropWhile)
  ultimately show ?thesis using last_ok by (simp add: py_strip_def)
qed

lemma line_nonblank_Nil [simp]: "\<not> line_nonblank []"
  by (simp add: line_nonblank_def py_strip_def)

text \<open>
  C16. The content loop's blank-line test \<open>line.strip()\<close> is true exactly when the
  line holds a code point that is not Python whitespace. So an empty line, or one of
  spaces, tabs or ideographic spaces (U+3000) only, is blank.
\<close>

theorem line_nonblank_iff: "line_nonblank line \<longleftrightarrow> (\<exists>c \<in> set line. \<not> py_isspace c)"
  by (auto simp: line_nonblank_def py_strip_Nil_iff)

theorem line_nonblank_iff_witness:
  "line_nonblank [12288, 32, 9] = (\<exists>c \<in> set [12288, 32, 9]. \<not> py_isspace c) \<and>
   \<not> line_nonblank [12288, 32, 9] \<and> line_nonblank [32, 20320, 32]"
  using line_nonblank_iff[of "[12288, 32, 9]"] line_nonblank_iff[of "[32, 20320, 32]"]
  by (simp add: py_isspace_def)

end
