(* ===== verification/PyFloat.thy ===== *)
theory PyFloat
  imports Prelude "HOL-Library.Log_Nat"
begin

text \<open>
  Python's \<open>float\<close>: IEEE 754 binary64 with round to nearest, ties to even. A float
  is represented by its exact value, a \<open>rat\<close>. \<open>fl x\<close> is the double nearest to
  \<open>x\<close>, the result of every float operation on exact operands. So \<open>a + b\<close> on
  floats is \<open>fl (a + b)\<close>, \<open>a * b\<close> is \<open>fl (a * b)\<close>, \<open>float(n)\<close> of an
  \<open>int\<close> is \<open>fl n\<close>, and the literal \<open>1.2\<close> is \<open>fl (6 / 5)\<close>. The significand has
  53 bits. The exponent of the last place is \<open>\<lfloor>log2 |x|\<rfloor> - 52\<close>, but at least
  \<open>-1074\<close>, which covers the subnormals. Overflow to infinity (\<open>|x| \<ge> 2\<^sup>1\<^sup>0\<^sup>2\<^sup>4\<close>) is
  not modelled, because the program's floats are pixel coordinates. \<open>fl_of_int\<close>
  shows that integers below \<open>2\<^sup>5\<^sup>3\<close> are represented exactly, and \<open>fl_error_le\<close>
  that the rounding error is at most half a unit in the last place.
\<close>

definition round_even :: "rat \<Rightarrow> int" where
  "round_even q =
     (let f = \<lfloor>q\<rfloor>; d = q - of_int f
      in if d < 1 / 2 then f else if 1 / 2 < d then f + 1 else if even f then f else f + 1)"
  \<comment> \<open>the integer nearest to \<open>q\<close>, ties to the even one\<close>

definition log2_floor :: "rat \<Rightarrow> int" where
  "log2_floor a =
     (if 1 \<le> a then int (floorlog 2 (nat \<lfloor>a\<rfloor>)) - 1
      else - int (floorlog 2 (nat \<lceil>1 / a\<rceil> - 1)))"
  \<comment> \<open>\<open>\<lfloor>log2 a\<rfloor>\<close> for \<open>a > 0\<close>: from the bit length of \<open>\<lfloor>a\<rfloor>\<close>, or of \<open>\<lceil>1/a\<rceil> - 1\<close> below 1\<close>

definition fl :: "rat \<Rightarrow> rat" where
  "fl x =
     (if x = 0 then 0
      else let a = \<bar>x\<bar>; e = max (log2_floor a - 52) (- 1074)
           in sgn x * of_int (round_even (a / 2 powi e)) * 2 powi e)"
  \<comment> \<open>the binary64 value nearest to \<open>x\<close>: \<open>x\<close> rounded to a multiple of \<open>2\<^sup>e\<close>\<close>

lemma round_even_of_int [simp]: "round_even (of_int k) = k"
  by (simp add: round_even_def)

lemma log2_floor_int_le:
  assumes "1 \<le> n" "n < 2 ^ 53"
  shows "log2_floor (of_int n) \<le> 52"
proof -
  have "nat n < 2 ^ 53" using assms by (simp add: nat_less_iff)
  then have "floorlog 2 (nat n) \<le> 53" by (simp add: floorlog_le_iff)
  with assms show ?thesis by (simp add: log2_floor_def)
qed

lemma fl_of_int:
  assumes "\<bar>n\<bar> < 2 ^ 53"
  shows "fl (of_int n) = of_int n"
proof (cases "n = 0")
  case True
  then show ?thesis by (simp add: fl_def)
next
  case False
  define e where "e = max (log2_floor \<bar>of_int n :: rat\<bar> - 52) (- 1074)"
  have "log2_floor (of_int \<bar>n\<bar> :: rat) \<le> 52"
    using False assms by (intro log2_floor_int_le) auto
  then have "e \<le> 0" by (simp add: e_def)
  then have pow: "(2::rat) powi e = 1 / 2 ^ nat (- e)"
    by (simp add: power_int_def power_one_over)
  have r: "round_even (\<bar>of_int n :: rat\<bar> * 2 ^ nat (- e)) = \<bar>n\<bar> * 2 ^ nat (- e)"
    using round_even_of_int[of "\<bar>n\<bar> * 2 ^ nat (- e)"] by simp
  have "fl (of_int n) = sgn (of_int n) * of_int (\<bar>n\<bar> * 2 ^ nat (- e)) * (1 / 2 ^ nat (- e) :: rat)"
    using False by (simp add: fl_def Let_def e_def[symmetric] pow r)
  also have "\<dots> = sgn (of_int n) * \<bar>of_int n\<bar>" by simp
  finally show ?thesis by (simp add: sgn_mult_abs)
qed
lemma round_even_error: "\<bar>of_int (round_even q) - q\<bar> \<le> 1 / 2"
proof -
  have "of_int \<lfloor>q\<rfloor> \<le> q" "q < of_int \<lfloor>q\<rfloor> + 1"
    using floor_correct[of q] by simp_all
  then show ?thesis by (auto simp: round_even_def Let_def abs_le_iff)
qed

lemma log2_floor_le:
  assumes "0 < a"
  shows "2 powi log2_floor a \<le> a"
proof (cases "1 \<le> a")
  case True
  define n where "n = nat \<lfloor>a\<rfloor>"
  have n: "0 < n" using True by (simp add: n_def)
  have "2 ^ (floorlog 2 n - 1) \<le> n" using floorlog_bounds[OF n, of 2] by simp
  then have "of_nat (2 ^ (floorlog 2 n - 1)) \<le> (of_nat n :: rat)" by (simp only: of_nat_le_iff)
  also have "of_nat n \<le> a" using True by (simp add: n_def of_int_floor_le)
  finally have le: "(2::rat) ^ (floorlog 2 n - 1) \<le> a" by simp
  have "0 < floorlog 2 n" using n by (simp add: floorlog_def)
  then have "log2_floor a = int (floorlog 2 n - 1)"
    using True by (simp add: log2_floor_def n_def[symmetric] of_nat_diff)
  then have "(2::rat) powi log2_floor a = 2 ^ (floorlog 2 n - 1)"
    by (simp only: power_int_of_nat)
  with le show ?thesis by simp
next
  case False
  define c where "c = \<lceil>1 / a\<rceil>"
  have "1 < 1 / a" using False assms by simp
  then have c2: "1 < c" unfolding c_def by (simp add: less_ceiling_iff)
  define k where "k = nat c - 1"
  have k: "0 < k" using c2 by (simp add: k_def)
  have "k < 2 ^ floorlog 2 k" using floorlog_bounds[OF k, of 2] by simp
  then have "int k < int (2 ^ floorlog 2 k)" by (simp only: of_nat_less_iff)
  moreover have "int k = c - 1" using c2 by (simp add: k_def)
  ultimately have "c \<le> 2 ^ floorlog 2 k" by simp
  then have "of_int c \<le> (of_int (2 ^ floorlog 2 k) :: rat)" by (simp only: of_int_le_iff)
  moreover have "1 / a \<le> of_int c" unfolding c_def by (rule le_of_int_ceiling)
  ultimately have "1 / a \<le> (of_int (2 ^ floorlog 2 k) :: rat)" by linarith
  then have "1 / a \<le> (2::rat) ^ floorlog 2 k" by simp
  then have "1 / 2 ^ floorlog 2 k \<le> a" using assms by (simp add: field_simps)
  moreover have "log2_floor a = - int (floorlog 2 k)"
    using False by (simp add: log2_floor_def c_def[symmetric] k_def)
  moreover have "0 < floorlog 2 k" using k by (simp add: floorlog_def)
  ultimately show ?thesis by (simp add: power_int_def power_one_over)
qed

lemma fl_error_le:
  assumes "\<bar>x\<bar> \<le> B"
  shows "\<bar>fl x - x\<bar> \<le> max (B / 2 ^ 53) (1 / 2 ^ 1075)"
proof (cases "x = 0")
  case True
  then show ?thesis by (simp add: fl_def max.coboundedI2)
next
  case False
  define a where "a = \<bar>x\<bar>"
  define k where "k = log2_floor a"
  define e where "e = max (k - 52) (- 1074)"
  define q where "q = a / 2 powi e"
  have a: "0 < a" using False by (simp add: a_def)
  have pe: "(0::rat) < 2 powi e" by simp
  have x: "x = sgn x * (q * 2 powi e)" using pe by (simp add: q_def a_def sgn_mult_abs)
  have fl: "fl x = sgn x * (of_int (round_even q) * 2 powi e)"
    using False by (simp add: fl_def Let_def a_def[symmetric] k_def[symmetric] e_def[symmetric] q_def[symmetric])
  have "fl x - x = sgn x * ((of_int (round_even q) - q) * 2 powi e)"
    by (subst fl, subst (2) x) (simp add: algebra_simps)
  then have "\<bar>fl x - x\<bar> = \<bar>of_int (round_even q) - q\<bar> * 2 powi e"
    using False pe by (simp add: abs_mult abs_sgn_eq)
  also have "\<dots> \<le> 1 / 2 * 2 powi e"
    using round_even_error[of q] pe by (intro mult_right_mono) simp_all
  also have "\<dots> \<le> max (a / 2 ^ 53) (1 / 2 ^ 1075)"
  proof (cases "- 1074 \<le> k - 52")
    case True
    then have "e = k - 52" by (simp add: e_def)
    then have "1 / 2 * (2::rat) powi e = 2 powi k / 2 ^ 53"
      by (simp add: power_int_diff)
    also have "\<dots> \<le> a / 2 ^ 53" using log2_floor_le[OF a] by (simp add: k_def divide_right_mono)
    finally show ?thesis by simp
  next
    case False
    then have "e = - 1074" by (simp add: e_def)
    then have "1 / 2 * (2::rat) powi e = 1 / 2 ^ 1075"
      by (simp add: power_int_def power_one_over)
    then show ?thesis by (simp only: max.cobounded2)
  qed
  also have "\<dots> \<le> max (B / 2 ^ 53) (1 / 2 ^ 1075)"
    using assms by (simp add: a_def max.coboundedI1 divide_right_mono max_def)
  finally show ?thesis .
qed

end
