(* ===== verification/TextAlign.thy ===== *)
theory TextAlign
  imports Prelude
begin

text \<open>
  The enumeration \<open>TextAlign\<close> of \<open>src/demo4.py\<close> (lines 8 to 11), as a datatype with the
  source's three members. The program only compares an alignment with the members
  (\<open>align == TextAlign.LEFT\<close>, lines 144 and 146), which is equality on this type.
  A caller can also pass a value that is not a member, for example the string
  \<open>"left"\<close>. The source's \<open>else\<close> branch treats such a value as \<open>RIGHT\<close>, but this
  type cannot represent it; the manifest records it as a finding.
\<close>

datatype text_align = LEFT | CENTER | RIGHT

end
