(* ===== verification/Console.thy ===== *)
theory Console
  imports Prelude
begin

text \<open>
  Console output of \<open>create_styled_text_image\<close> (\<open>src/demo4.py\<close>, lines 58, 68, 118 and
  120). The composer reports each outcome with one \<open>print\<close> of an f-string:
  \<^item> a fixed Chinese prefix followed by the exception's text \<open>{e}\<close> for the three
    handled exceptions;
  \<^item> the prefix followed by \<open>{output_path}\<close> on success.
  \<open>message\<close> is the outcome, with the exception text or the path as its argument.
  \<open>message_text\<close> is the line that \<open>print\<close> writes (without its newline), as code
  points. The prefixes are \<open>background_error_prefix\<close> ("cannot open the background
  image: "), \<open>font_error_prefix\<close> ("cannot load the font: "), \<open>saved_prefix\<close> ("image
  saved to: ") and \<open>save_error_prefix\<close> ("error while saving the image: ").

  The source reports failure only as printed text. \<open>parse_message\<close> is how a caller
  would recover the outcome from that text, by its prefix. The round-trip lemma shows
  that this always works: the four prefixes are pairwise not prefixes of each other,
  so the printed line determines both the outcome and its cause.
\<close>

datatype message =
    BackgroundOpenError pystr  \<comment> \<open>line 58: cannot open the background image, with \<open>str(e)\<close>\<close>
  | FontLoadError pystr        \<comment> \<open>line 68: cannot load a font, with \<open>str(e)\<close>\<close>
  | SavedTo path               \<comment> \<open>line 118: image saved to the output path\<close>
  | SaveError pystr            \<comment> \<open>line 120: error while saving, with \<open>str(e)\<close>\<close>

definition background_error_prefix :: pystr where
  "background_error_prefix = [26080, 27861, 25171, 24320, 32972, 26223, 22270, 29255, 58, 32]"

definition font_error_prefix :: pystr where
  "font_error_prefix = [26080, 27861, 21152, 36733, 23383, 20307, 58, 32]"

definition saved_prefix :: pystr where
  "saved_prefix = [22270, 29255, 24050, 20445, 23384, 33267, 58, 32]"

definition save_error_prefix :: pystr where
  "save_error_prefix = [20445, 23384, 22270, 29255, 26102, 20986, 38169, 58, 32]"

primrec message_text :: "message \<Rightarrow> pystr" where
  "message_text (BackgroundOpenError e) = background_error_prefix @ e"
| "message_text (FontLoadError e) = font_error_prefix @ e"
| "message_text (SavedTo p) = saved_prefix @ p"
| "message_text (SaveError e) = save_error_prefix @ e"

definition strip_prefix :: "pystr \<Rightarrow> pystr \<Rightarrow> pystr option" where
  "strip_prefix p s = (if take (length p) s = p then Some (drop (length p) s) else None)"
  \<comment> \<open>the rest of \<open>s\<close> after the prefix \<open>p\<close>, if \<open>s\<close> starts with it\<close>

definition parse_message :: "pystr \<Rightarrow> message option" where
  "parse_message s =
     (case strip_prefix background_error_prefix s of
        Some e \<Rightarrow> Some (BackgroundOpenError e)
      | None \<Rightarrow>
     (case strip_prefix font_error_prefix s of
        Some e \<Rightarrow> Some (FontLoadError e)
      | None \<Rightarrow>
     (case strip_prefix saved_prefix s of
        Some p \<Rightarrow> Some (SavedTo p)
      | None \<Rightarrow> map_option SaveError (strip_prefix save_error_prefix s))))"

lemmas message_prefix_defs =
  background_error_prefix_def font_error_prefix_def saved_prefix_def save_error_prefix_def

lemma strip_prefix_append [simp]: "strip_prefix p (p @ s) = Some s"
  by (simp add: strip_prefix_def)

text \<open>
  C18. A printed line always determines the message. Parsing the line that the
  composer prints gives back the outcome together with the exception's text or the
  output path. So two different outcomes, or the same outcome with different causes,
  never print the same line.
\<close>

theorem message_text_roundtrip: "parse_message (message_text m) = Some m"
  by (cases m) (simp_all add: parse_message_def strip_prefix_def message_prefix_defs)

end
