(* ===== verification/ImagingLib.thy ===== *)
theory ImagingLib
  imports Prelude
begin

text \<open>
  The interface of the Pillow imaging library (\<open>PIL.Image\<close>, \<open>ImageDraw\<close>,
  \<open>ImageFont\<close>, \<open>ImageEnhance\<close>) as \<open>src/demo4.py\<close> calls it. Pillow is not part of the
  repository, so it is not translated. Its pixel-level work (decoding, contrast,
  glyph rasterisation, blending, encoding) is a parameter of the model: a record
  \<open>imaging_lib\<close> of functions over an unspecified pixel type \<open>'px\<close> and font type
  \<open>'font\<close>. The model states every theorem for all such parameters.

  The image record keeps what Pillow checks itself: the size and the mode. Those
  checks are written out. A call that can raise returns a \<open>py_result\<close>: its value, or
  the text of the exception, which the program prints. \<open>Image.alpha_composite\<close> raises \<open>ValueError\<close> unless both
  images are RGBA and have the same size, which is \<open>None\<close> here. A drawing call
  changes only the pixels of its layer. The drawing surface \<open>ImageDraw.Draw(txt)\<close>
  is modelled by the list of \<open>draw.text\<close> calls made on it, in order (a
  \<open>draw_op list\<close>). \<open>rasterize\<close> replays that list on the layer, as Pillow applies
  each call in place.
\<close>

datatype img_mode = RGBA | RGB

datatype color = RGBc int int int | RGBAc int int int int
  \<comment> \<open>a colour tuple \<open>(r, g, b)\<close> or \<open>(r, g, b, a)\<close>\<close>

datatype 'font draw_op = DrawText "int \<times> rat" pystr 'font color
  \<comment> \<open>\<open>draw.text((x, y), text, font=font, fill=colour)\<close>\<close>

record 'px image =
  img_size :: "nat \<times> nat"
  img_mode :: img_mode
  img_pixels :: 'px

record ('px, 'font) imaging_lib =
  decode :: "path \<Rightarrow> (nat \<times> nat \<times> 'px) py_result"
    \<comment> \<open>\<open>Image.open(p)\<close> and its lazy load; \<open>Inl (str(e))\<close> when Pillow raises\<close>
  to_rgba :: "'px \<Rightarrow> 'px"
  contrast :: "rat \<Rightarrow> 'px \<Rightarrow> 'px"
  blank :: "nat \<times> nat \<Rightarrow> color \<Rightarrow> 'px"
  truetype :: "path \<Rightarrow> int \<Rightarrow> 'font py_result"
    \<comment> \<open>\<open>ImageFont.truetype(p, size)\<close>; \<open>Inl (str(e))\<close> when it raises\<close>
  textbbox :: "'font \<Rightarrow> pystr \<Rightarrow> bbox"
    \<comment> \<open>\<open>draw.textbbox((0, 0), text, font=font)\<close>\<close>
  render_text :: "'px \<Rightarrow> 'font draw_op \<Rightarrow> 'px"
  blend :: "'px \<Rightarrow> 'px \<Rightarrow> 'px"
  to_rgb :: "'px \<Rightarrow> 'px"
  encode :: "path \<Rightarrow> nat \<Rightarrow> 'px \<Rightarrow> unit py_result"
    \<comment> \<open>\<open>im.save(path, quality=q)\<close>; \<open>Inl (str(e))\<close> when it raises\<close>

definition op_pos :: "'font draw_op \<Rightarrow> int \<times> rat" where
  "op_pos op = (case op of DrawText xy _ _ _ \<Rightarrow> xy)"

definition op_text :: "'font draw_op \<Rightarrow> pystr" where
  "op_text op = (case op of DrawText _ t _ _ \<Rightarrow> t)"

definition op_font :: "'font draw_op \<Rightarrow> 'font" where
  "op_font op = (case op of DrawText _ _ f _ \<Rightarrow> f)"

definition op_fill :: "'font draw_op \<Rightarrow> color" where
  "op_fill op = (case op of DrawText _ _ _ c \<Rightarrow> c)"

lemma op_sel [simp]:
  "op_pos (DrawText xy t f c) = xy" "op_text (DrawText xy t f c) = t"
  "op_font (DrawText xy t f c) = f" "op_fill (DrawText xy t f c) = c"
  by (simp_all add: op_pos_def op_text_def op_font_def op_fill_def)

subsection \<open>Pillow operations used by the program\<close>

definition image_open_rgba :: "('px, 'font) imaging_lib \<Rightarrow> path \<Rightarrow> 'px image py_result" where
  "image_open_rgba lib p =
     map_sum id (\<lambda>(w, h, px). \<lparr>img_size = (w, h), img_mode = RGBA, img_pixels = to_rgba lib px\<rparr>)
       (decode lib p)"
  \<comment> \<open>\<open>Image.open(p).convert('RGBA')\<close>\<close>

definition enhance_contrast :: "('px, 'font) imaging_lib \<Rightarrow> rat \<Rightarrow> 'px image \<Rightarrow> 'px image" where
  "enhance_contrast lib f im = im\<lparr>img_pixels := contrast lib f (img_pixels im)\<rparr>"
  \<comment> \<open>\<open>ImageEnhance.Contrast(im).enhance(f)\<close>\<close>

definition image_new :: "('px, 'font) imaging_lib \<Rightarrow> img_mode \<Rightarrow> nat \<times> nat \<Rightarrow> color \<Rightarrow> 'px image" where
  "image_new lib m s c = \<lparr>img_size = s, img_mode = m, img_pixels = blank lib s c\<rparr>"

definition rasterize :: "('px, 'font) imaging_lib \<Rightarrow> 'px image \<Rightarrow> 'font draw_op list \<Rightarrow> 'px image" where
  "rasterize lib im ops = fold (\<lambda>op im. im\<lparr>img_pixels := render_text lib (img_pixels im) op\<rparr>) ops im"
  \<comment> \<open>the layer after the recorded \<open>draw.text\<close> calls, applied in order\<close>

definition alpha_composite :: "('px, 'font) imaging_lib \<Rightarrow> 'px image \<Rightarrow> 'px image \<Rightarrow> 'px image option" where
  "alpha_composite lib a b =
     (if img_mode a = RGBA \<and> img_mode b = RGBA \<and> img_size a = img_size b
      then Some \<lparr>img_size = img_size a, img_mode = RGBA, img_pixels = blend lib (img_pixels a) (img_pixels b)\<rparr>
      else None)"
  \<comment> \<open>\<open>Image.alpha_composite(a, b)\<close>; \<open>None\<close> is its \<open>ValueError\<close>\<close>

definition convert_rgb :: "('px, 'font) imaging_lib \<Rightarrow> 'px image \<Rightarrow> 'px image" where
  "convert_rgb lib im = im\<lparr>img_mode := RGB, img_pixels := to_rgb lib (img_pixels im)\<rparr>"

subsection \<open>Facts about the interface\<close>

lemma rasterize_size [simp]: "img_size (rasterize lib im ops) = img_size im"
  by (induction ops arbitrary: im) (simp_all add: rasterize_def)

lemma rasterize_mode [simp]: "img_mode (rasterize lib im ops) = img_mode im"
  by (induction ops arbitrary: im) (simp_all add: rasterize_def)

lemma rasterize_append: "rasterize lib im (xs @ ys) = rasterize lib (rasterize lib im xs) ys"
  by (simp add: rasterize_def)

lemma image_open_rgba_mode: "image_open_rgba lib p = Inr im \<Longrightarrow> img_mode im = RGBA"
  by (cases "decode lib p") (auto simp: image_open_rgba_def)

lemma enhance_contrast_sel [simp]:
  "img_size (enhance_contrast lib f im) = img_size im"
  "img_mode (enhance_contrast lib f im) = img_mode im"
  by (simp_all add: enhance_contrast_def)

lemma image_new_sel [simp]:
  "img_size (image_new lib m s c) = s" "img_mode (image_new lib m s c) = m"
  by (simp_all add: image_new_def)

lemma alpha_composite_Some_iff:
  "alpha_composite lib a b \<noteq> None \<longleftrightarrow>
     img_mode a = RGBA \<and> img_mode b = RGBA \<and> img_size a = img_size b"
  by (simp add: alpha_composite_def)

lemma alpha_composite_size:
  "alpha_composite lib a b = Some c \<Longrightarrow> img_size c = img_size a"
  by (auto simp: alpha_composite_def split: if_splits)

end
