(* ===== verification/DemoLib.thy ===== *)
theory DemoLib
  imports ImagingLib
begin

text \<open>
  A concrete instance of the imaging interface, used only by the witnesses to evaluate
  the model on fixed inputs. Pixels are \<open>unit\<close>. A font is its point size. The file
  \<open>bg.jpg\<close> decodes to a 1000 by 600 image and every other path fails to decode.
  \<open>font.ttf\<close> is the only loadable font. Text is measured at half the point size per
  code point. Saving fails only for the path \<open>ro/out.jpg\<close>. A failing call raises
  with the text CPython or Pillow gives for that failure.
\<close>

definition demo_lib :: "(unit, int) imaging_lib" where
  "demo_lib =
     \<lparr>decode = (\<lambda>p. if p = pystr_of ''bg.jpg'' then Inr (1000, 600, ())
                  else Inl (pystr_of ''[Errno 2] No such file or directory'')),
      to_rgba = (\<lambda>px. px),
      contrast = (\<lambda>f px. px),
      blank = (\<lambda>s c. ()),
      truetype = (\<lambda>p sz. if p = pystr_of ''font.ttf'' then Inr sz else Inl (pystr_of ''cannot open resource'')),
      textbbox = (\<lambda>sz t. (0, 0, int (length t) * sz div 2, sz)),
      render_text = (\<lambda>px op. px),
      blend = (\<lambda>a b. a),
      to_rgb = (\<lambda>px. px),
      encode = (\<lambda>p q px. if p = pystr_of ''ro/out.jpg'' then Inl (pystr_of ''[Errno 13] Permission denied'') else Inr ())\<rparr>"

lemma demo_lib_sel [simp]:
  "textbbox demo_lib sz t = (0, 0, int (length t) * sz div 2, sz)"
  "decode demo_lib p = (if p = pystr_of ''bg.jpg'' then Inr (1000, 600, ())
                         else Inl (pystr_of ''[Errno 2] No such file or directory''))"
  "truetype demo_lib p sz = (if p = pystr_of ''font.ttf'' then Inr sz else Inl (pystr_of ''cannot open resource''))"
  "encode demo_lib p q px =
     (if p = pystr_of ''ro/out.jpg'' then Inl (pystr_of ''[Errno 13] Permission denied'') else Inr ())"
  "to_rgba demo_lib px = px" "contrast demo_lib f px = px" "to_rgb demo_lib px = px"
  "blank demo_lib s c = ()" "render_text demo_lib px op = px" "blend demo_lib a b = a"
  by (simp_all add: demo_lib_def)

end
