(* ===== verification/Renderer.thy ===== *)
theory Renderer
  imports Prelude TextAlign ImagingLib DemoLib
begin

text \<open>
  The styled-text renderer, \<open>draw_styled_text\<close> of \<open>src/demo4.py\<close> (lines 123 to 170),
  using the enumeration \<open>TextAlign\<close> of the theory \<open>TextAlign\<close>. The renderer measures the text
  with \<open>draw.textbbox\<close>. It computes the horizontal anchor from the alignment and
  the margins (\<open>text_x_of\<close>). It draws the outline as \<open>(2w+1)\<^sup>2\<close> offset copies in
  two nested \<open>for\<close> loops (\<open>draw_stroke\<close>) and then the fill on top. It returns
  \<open>position_y\<close> unchanged. The drawing surface is the list of \<open>draw.text\<close> calls
  made so far; the renderer returns the extended list.

  The loops are written as \<open>fold\<close>s over \<open>py_range\<close>, as the source iterates.
  \<open>stroke_ops\<close> and \<open>styled_text_ops\<close> are their closed forms (reference
  definitions), and \<open>draw_stroke_closed\<close> and \<open>draw_styled_text_eq\<close> prove the loops
  equal to them. The remaining lemmas are about the anchor arithmetic (bounds,
  symmetry, the missing guard) and about the trace (its length, order and footprint).
  \<open>ink_hspan\<close> is the horizontal span that Pillow inks for one call, from the measured
  box. The ink lemmas compare it with the margins that the alignment aims for.
\<close>

definition text_x_of :: "text_align \<Rightarrow> int \<Rightarrow> int \<Rightarrow> int \<Rightarrow> int \<Rightarrow> int" where
  "text_x_of align image_width margin_left margin_right text_width =
     (let available_width = image_width - margin_left - margin_right
      in if align = LEFT then margin_left
         else if align = CENTER then margin_left + (available_width - text_width) div 2
         else image_width - margin_right - text_width)"

definition draw_stroke ::
  "pystr \<Rightarrow> 'font \<Rightarrow> int \<Rightarrow> rat \<Rightarrow> int \<Rightarrow> color \<Rightarrow> 'font draw_op list \<Rightarrow> 'font draw_op list" where
  "draw_stroke text font text_x position_y stroke_width stroke_color draw =
     (if stroke_width > 0 then
        fold (\<lambda>offset_x draw.
            fold (\<lambda>offset_y draw.
                draw @ [DrawText (text_x + offset_x, position_y + of_int offset_y) text font stroke_color])
              (py_range (- stroke_width) (stroke_width + 1)) draw)
          (py_range (- stroke_width) (stroke_width + 1)) draw
      else draw)"

definition bbox_width :: "bbox \<Rightarrow> int" where
  "bbox_width text_bbox = (case text_bbox of (l, t, r, b) \<Rightarrow> r - l)"
  \<comment> \<open>\<open>text_bbox[2] - text_bbox[0]\<close>\<close>

definition draw_styled_text ::
  "('px, 'font) imaging_lib \<Rightarrow> 'font draw_op list \<Rightarrow> pystr \<Rightarrow> 'font \<Rightarrow> rat \<Rightarrow> int \<Rightarrow>
   color \<Rightarrow> text_align \<Rightarrow> int \<Rightarrow> int \<Rightarrow> int \<Rightarrow> color \<Rightarrow> 'font draw_op list \<times> rat" where
  "draw_styled_text lib draw text font position_y image_width text_color align
      margin_left margin_right stroke_width stroke_color =
     (let text_width = bbox_width (textbbox lib font text);
          text_x = text_x_of align image_width margin_left margin_right text_width;
          draw = draw_stroke text font text_x position_y stroke_width stroke_color draw;
          draw = draw @ [DrawText (text_x, position_y) text font text_color]
      in (draw, position_y))"

subsection \<open>Reference definitions: the closed form of the trace\<close>

definition stroke_offsets :: "int \<Rightarrow> (int \<times> int) list" where
  "stroke_offsets w = List.product [- w..w] [- w..w]"

definition stroke_ops :: "pystr \<Rightarrow> 'font \<Rightarrow> int \<Rightarrow> rat \<Rightarrow> int \<Rightarrow> color \<Rightarrow> 'font draw_op list" where
  "stroke_ops text font x y w c =
     (if 0 < w then map (\<lambda>(dx, dy). DrawText (x + dx, y + of_int dy) text font c) (stroke_offsets w)
      else [])"

definition styled_text_ops ::
  "pystr \<Rightarrow> 'font \<Rightarrow> int \<Rightarrow> rat \<Rightarrow> int \<Rightarrow> color \<Rightarrow> color \<Rightarrow> 'font draw_op list" where
  "styled_text_ops text font x y w stroke_color text_color =
     stroke_ops text font x y w stroke_color @ [DrawText (x, y) text font text_color]"

definition ink_hspan :: "('px, 'font) imaging_lib \<Rightarrow> 'font draw_op \<Rightarrow> int \<times> int" where
  "ink_hspan lib op =
     (case op of DrawText (x, y) text font c \<Rightarrow> (case textbbox lib font text of (l, t, r, b) \<Rightarrow> (x + l, x + r)))"
  \<comment> \<open>the columns \<open>[x + l, x + r)\<close> that the glyphs of a call cover. Pillow draws with the
      anchor \<open>"la"\<close>, so \<open>draw.textbbox((x, y), text, font)\<close> is the box measured at
      \<open>(0, 0)\<close> moved by \<open>(x, y)\<close>\<close>

subsection \<open>The loops equal their closed forms\<close>

lemma draw_stroke_closed [trace_simps]:
  "draw_stroke text font x y w c draw = draw @ stroke_ops text font x y w c"
  by (simp add: draw_stroke_def stroke_ops_def stroke_offsets_def py_range_def
      trace_simps concat_map_map_pairs)

lemma draw_styled_text_eq:
  "draw_styled_text lib draw text font y W tc align ml mr w sc =
     (draw @ styled_text_ops text font (text_x_of align W ml mr (bbox_width (textbbox lib font text)))
        y w sc tc, y)"
  by (simp add: draw_styled_text_def styled_text_ops_def trace_simps Let_def)

subsection \<open>Facts about the closed forms\<close>

lemma stroke_offsets_length: "0 \<le> w \<Longrightarrow> length (stroke_offsets w) = nat ((2 * w + 1)\<^sup>2)"
  by (simp add: stroke_offsets_def power2_eq_square nat_mult_distrib)

lemma stroke_offsets_set: "set (stroke_offsets w) = {- w..w} \<times> {- w..w}"
  by (simp add: stroke_offsets_def)

lemma stroke_offsets_distinct: "distinct (stroke_offsets w)"
  by (simp add: stroke_offsets_def distinct_product)

lemma stroke_ops_length:
  "length (stroke_ops text font x y w c) = (if 0 < w then nat ((2 * w + 1)\<^sup>2) else 0)"
  by (simp add: stroke_ops_def stroke_offsets_length)

lemma styled_text_ops_length:
  "length (styled_text_ops text font x y w sc tc) = (if 0 < w then nat ((2 * w + 1)\<^sup>2) + 1 else 1)"
  by (simp add: styled_text_ops_def stroke_ops_length)

lemma stroke_ops_fill: "op \<in> set (stroke_ops text font x y w c) \<Longrightarrow> op_fill op = c"
  by (auto simp: stroke_ops_def)

lemma stroke_ops_text: "op \<in> set (stroke_ops text font x y w c) \<Longrightarrow> op_text op = text"
  by (auto simp: stroke_ops_def)

lemma stroke_ops_pos_set:
  "0 < w \<Longrightarrow> op_pos ` set (stroke_ops text font x y w c) =
     (\<lambda>(dx, dy). (x + dx, y + of_int dy)) ` ({- w..w} \<times> {- w..w})"
  by (simp add: stroke_ops_def stroke_offsets_set image_image case_prod_beta')

lemma styled_text_ops_nonempty [simp]: "styled_text_ops text font x y w sc tc \<noteq> []"
  by (simp add: styled_text_ops_def)

lemma styled_text_ops_last [simp]:
  "last (draw @ styled_text_ops text font x y w sc tc) = DrawText (x, y) text font tc"
  "last (styled_text_ops text font x y w sc tc) = DrawText (x, y) text font tc"
  by (simp_all add: styled_text_ops_def)

lemma styled_text_ops_texts: "op \<in> set (styled_text_ops text font x y w sc tc) \<Longrightarrow> op_text op = text"
  by (auto simp: styled_text_ops_def dest: stroke_ops_text)

lemmas renderer_trace_facts =
  styled_text_ops_length styled_text_ops_last styled_text_ops_texts stroke_ops_fill

subsection \<open>Anchor arithmetic\<close>

lemma text_x_of_cases:
  "text_x_of LEFT W ml mr tw = ml"
  "text_x_of CENTER W ml mr tw = ml + (W - ml - mr - tw) div 2"
  "text_x_of RIGHT W ml mr tw = W - mr - tw"
  by (simp_all add: text_x_of_def)

lemma center_gap_bounds:
  fixes a :: int
  assumes "0 \<le> a"
  shows "0 \<le> a div 2 \<and> a div 2 \<le> a \<and> 0 \<le> (a - a div 2) - a div 2 \<and> (a - a div 2) - a div 2 \<le> 1"
  using assms by linarith

lemma stroke_grid_x_extent:
  assumes "0 \<le> w"
  shows "fst ` (\<lambda>(dx, dy). (x + dx, y + of_int dy :: rat)) ` ({- w..w} \<times> {- w..w}) = {x - w..x + w}"
proof
  show "fst ` (\<lambda>(dx, dy). (x + dx, y + of_int dy :: rat)) ` ({- w..w} \<times> {- w..w}) \<subseteq> {x - w..x + w}"
    by auto
next
  show "{x - w..x + w} \<subseteq> fst ` (\<lambda>(dx, dy). (x + dx, y + of_int dy :: rat)) ` ({- w..w} \<times> {- w..w})"
  proof
    fix z assume z: "z \<in> {x - w..x + w}"
    then have "(z - x, 0) \<in> {- w..w} \<times> {- w..w}" using assms by auto
    then have "(z, y) \<in> (\<lambda>(dx, dy). (x + dx, y + of_int dy :: rat)) ` ({- w..w} \<times> {- w..w})"
      by (rule rev_image_eqI) simp
    then show "z \<in> fst ` (\<lambda>(dx, dy). (x + dx, y + of_int dy :: rat)) ` ({- w..w} \<times> {- w..w})"
      by (rule rev_image_eqI) simp
  qed
qed

lemma map_op_pos_stroke_ops:
  "map op_pos (stroke_ops text font x y w c) =
     (if 0 < w then map (\<lambda>(dx, dy). (x + dx, y + of_int dy)) (stroke_offsets w) else [])"
  by (simp add: stroke_ops_def case_prod_beta')

lemma stroke_ops_pos_distinct: "distinct (map op_pos (stroke_ops text font x y w c))"
proof -
  have "inj_on (\<lambda>(dx, dy). (x + dx, y + of_int dy :: rat)) (set (stroke_offsets w))"
    by (auto simp: inj_on_def)
  then show ?thesis
    by (simp add: map_op_pos_stroke_ops stroke_offsets_distinct distinct_map)
qed

lemma styled_text_ops_split:
  "butlast (styled_text_ops text font x y w sc tc) = stroke_ops text font x y w sc"
  "set (styled_text_ops text font x y w sc tc) = insert (DrawText (x, y) text font tc) (set (stroke_ops text font x y w sc))"
  by (simp_all add: styled_text_ops_def)

subsection \<open>Ink extents\<close>

lemma styled_text_ops_sel:
  "op \<in> set (styled_text_ops text font x y w sc tc) \<Longrightarrow>
   op_text op = text \<and> op_font op = font \<and> (op_fill op = sc \<or> op_fill op = tc)"
  by (auto simp: styled_text_ops_def stroke_ops_def)

lemma styled_text_x_extent:
  "fst ` op_pos ` set (styled_text_ops text font x y w sc tc) = {x - max w 0..x + max w 0}"
proof (cases "0 < w")
  case True
  then have "fst ` op_pos ` set (stroke_ops text font x y w sc) = {x - w..x + w}"
    by (simp add: stroke_ops_pos_set stroke_grid_x_extent)
  with True show ?thesis by (auto simp: styled_text_ops_split)
next
  case False
  then show ?thesis by (simp add: styled_text_ops_def stroke_ops_def)
qed

lemma ink_hspan_styled_text_ops:
  assumes "textbbox lib font text = (l, t, r, b)"
  shows "ink_hspan lib ` set (styled_text_ops text font x y w sc tc) =
           (\<lambda>x'. (x' + l, x' + r)) ` {x - max w 0..x + max w 0}"
proof -
  have "\<forall>op \<in> set (styled_text_ops text font x y w sc tc).
          ink_hspan lib op = (fst (op_pos op) + l, fst (op_pos op) + r)"
  proof
    fix op assume "op \<in> set (styled_text_ops text font x y w sc tc)"
    then have "op_text op = text" "op_font op = font" by (auto dest: styled_text_ops_sel)
    with assms show "ink_hspan lib op = (fst (op_pos op) + l, fst (op_pos op) + r)"
      by (cases op) (auto simp: ink_hspan_def)
  qed
  then have "ink_hspan lib ` set (styled_text_ops text font x y w sc tc) =
               (\<lambda>x'. (x' + l, x' + r)) ` fst ` op_pos ` set (styled_text_ops text font x y w sc tc)"
    by (auto simp: image_image intro: image_cong)
  then show ?thesis by (simp add: styled_text_x_extent)
qed

subsection \<open>Properties of the renderer\<close>

text \<open>
  C1. \<open>draw_styled_text\<close> appends to the drawing trace, for a positive stroke width
  \<open>w\<close>, one copy of the text in the stroke colour at every offset \<open>(dx, dy)\<close> with
  \<open>dx\<close> and \<open>dy\<close> in \<open>[-w, w]\<close>, \<open>dx\<close> in the outer loop and \<open>dy\<close> in the inner
  one. It then appends the fill in the text colour at the anchor. For \<open>w \<le> 0\<close> it
  appends only the fill. It returns \<open>position_y\<close> unchanged.
\<close>

theorem draw_styled_text_trace:
  "draw_styled_text lib draw text font y W tc align ml mr w sc =
     (let x = text_x_of align W ml mr (bbox_width (textbbox lib font text))
      in (draw @ (if 0 < w then [DrawText (x + dx, y + of_int dy) text font sc. dx \<leftarrow> [- w..w], dy \<leftarrow> [- w..w]]
                  else []) @ [DrawText (x, y) text font tc], y))"
  by (simp add: draw_styled_text_eq styled_text_ops_def stroke_ops_def stroke_offsets_def
      concat_map_map_pairs Let_def)

text \<open>
  C2. One call of \<open>draw_styled_text\<close> makes \<open>(2w+1)\<^sup>2 + 1\<close> \<open>draw.text\<close> calls when the
  stroke width \<open>w\<close> is positive, and exactly one otherwise (zero or negative width).
\<close>

theorem draw_styled_text_call_count:
  "length (fst (draw_styled_text lib draw text font y W tc align ml mr w sc)) =
     length draw + (if 0 < w then nat ((2 * w + 1)\<^sup>2) + 1 else 1)"
  by (simp add: draw_styled_text_eq styled_text_ops_length)

text \<open>
  C3. Centred text that fits between the margins is placed inside them. With
  \<open>tw \<le> image_width - margin_left - margin_right\<close>, the anchor \<open>x\<close> satisfies
  \<open>margin_left \<le> x\<close> and \<open>x + tw \<le> image_width - margin_right\<close>. The free space right
  of the text exceeds the free space left of it by 0 or 1 pixel, because the floor
  division gives the odd pixel to the right.
\<close>

theorem center_anchor_within_margins:
  assumes "tw \<le> W - ml - mr"
  shows "ml \<le> text_x_of CENTER W ml mr tw \<and> text_x_of CENTER W ml mr tw + tw \<le> W - mr \<and>
         0 \<le> (W - mr - (text_x_of CENTER W ml mr tw + tw)) - (text_x_of CENTER W ml mr tw - ml) \<and>
         (W - mr - (text_x_of CENTER W ml mr tw + tw)) - (text_x_of CENTER W ml mr tw - ml) \<le> 1"
proof -
  let ?a = "W - ml - mr - tw"
  have "0 \<le> ?a" using assms by simp
  then have "0 \<le> ?a div 2 \<and> ?a div 2 \<le> ?a \<and> 0 \<le> (?a - ?a div 2) - ?a div 2 \<and> (?a - ?a div 2) - ?a div 2 \<le> 1"
    by (rule center_gap_bounds)
  then show ?thesis by (simp add: text_x_of_cases)
qed

text \<open>
  C4. Right-aligned text: the fill of \<open>draw_styled_text\<close> is the last call on the
  trace, and its anchor \<open>x\<close> satisfies \<open>x + text_width = image_width - margin_right\<close>,
  where \<open>text_width\<close> is the measured bounding-box width. This holds for any text
  width, with no bound.
\<close>

theorem right_aligned_fill_flush:
  "\<exists>x. last (fst (draw_styled_text lib draw text font y W tc RIGHT ml mr w sc)) = DrawText (x, y) text font tc \<and>
       x + bbox_width (textbbox lib font text) = W - mr"
  by (simp add: draw_styled_text_eq styled_text_ops_last text_x_of_cases)

text \<open>
  C5. Left-aligned text: the fill, the last call of \<open>draw_styled_text\<close>, is anchored at
  \<open>(margin_left, position_y)\<close> whatever the text and its measured width.
\<close>

theorem left_aligned_fill_at_margin:
  "last (fst (draw_styled_text lib draw text font y W tc LEFT ml mr w sc)) = DrawText (ml, y) text font tc"
  by (simp add: draw_styled_text_eq styled_text_ops_last text_x_of_cases)

text \<open>
  C6. The anchor computation has no guard. When the text is wider than the space
  between the margins, centred and right-aligned text is anchored left of
  \<open>margin_left\<close>, so it runs over the left margin and, for a wide enough text, off the
  image.
\<close>

theorem overwide_text_crosses_left_margin:
  assumes "W - ml - mr < tw" and "align \<noteq> LEFT"
  shows "text_x_of align W ml mr tw < ml"
proof (cases align)
  case CENTER
  from assms(1) have "(W - ml - mr - tw) div 2 < 0" by linarith
  with CENTER show ?thesis by (simp add: text_x_of_cases)
next
  case RIGHT
  with assms(1) show ?thesis by (simp add: text_x_of_cases)
qed (use assms(2) in simp)

text \<open>
  C7. For a positive stroke width \<open>w\<close>, the calls that one \<open>draw_styled_text\<close> adds
  have anchors whose x-coordinates fill exactly \<open>[x - w, x + w]\<close> around the fill
  anchor \<open>x\<close>. So the outline reaches \<open>w\<close> pixels beyond the box that the alignment
  measured. The stroke copies sit at pairwise distinct positions, so each grid
  offset is stamped once. All of them are in the stroke colour, and the fill comes
  last.
\<close>

theorem stroke_footprint:
  assumes "0 < w"
  shows "let ops = drop (length draw) (fst (draw_styled_text lib draw text font y W tc align ml mr w sc));
             x = text_x_of align W ml mr (bbox_width (textbbox lib font text))
         in fst ` op_pos ` set ops = {x - w..x + w} \<and> distinct (map op_pos (butlast ops)) \<and>
            (\<forall>op \<in> set (butlast ops). op_fill op = sc) \<and> last ops = DrawText (x, y) text font tc"
proof -
  let ?x = "text_x_of align W ml mr (bbox_width (textbbox lib font text))"
  let ?S = "stroke_ops text font ?x y w sc"
  have pos: "op_pos ` set ?S = (\<lambda>(dx, dy). (?x + dx, y + of_int dy)) ` ({- w..w} \<times> {- w..w})"
    using assms by (rule stroke_ops_pos_set)
  have "fst ` op_pos ` set ?S = {?x - w..?x + w}"
    unfolding pos using assms by (simp add: stroke_grid_x_extent)
  moreover have "?x \<in> {?x - w..?x + w}" using assms by simp
  ultimately have ext: "fst ` op_pos ` insert (DrawText (?x, y) text font tc) (set ?S) = {?x - w..?x + w}"
    by auto
  show ?thesis
    using ext stroke_ops_pos_distinct[of "text" font "?x" y w sc] stroke_ops_fill[of _ "text" font "?x" y w sc]
    by (simp add: draw_styled_text_eq styled_text_ops_split styled_text_ops_last Let_def)
qed

text \<open>
  C20. The anchor arithmetic uses the box's width \<open>r - l\<close> but positions the text as
  if its ink started at the anchor. Pillow puts the ink at \<open>[x + l, x + r)\<close>, where
  \<open>(l, t, r, b)\<close> is the box measured at \<open>(0, 0)\<close>. So right-aligned ink ends at
  \<open>image_width - margin_right + l\<close>. It is flush with the right margin only when the
  left offset \<open>l\<close> is 0, and it crosses the margin by \<open>l\<close> pixels when \<open>l > 0\<close>, for
  example for text that starts with a space or a glyph with a left bearing.
\<close>

theorem right_aligned_ink_edge:
  "ink_hspan lib (last (fst (draw_styled_text lib draw text font y W tc RIGHT ml mr w sc))) =
     (W - mr - bbox_width (textbbox lib font text) + fst (textbbox lib font text),
      W - mr + fst (textbbox lib font text))"
  by (simp add: draw_styled_text_eq text_x_of_cases ink_hspan_def bbox_width_def split: prod.splits)

text \<open>
  C21. The ink envelope of one styled text. With fill anchor \<open>x\<close> and measured box
  \<open>(l, t, r, b)\<close>, the calls of \<open>draw_styled_text\<close> cover exactly the spans
  \<open>[x + d + l, x + d + r)\<close> for each offset \<open>d\<close> in \<open>[-w, w]\<close> (only \<open>d = 0\<close> when
  \<open>w \<le> 0\<close>). The leftmost ink column is therefore \<open>x - w + l\<close> and the rightmost
  span ends at \<open>x + w + r\<close>. The outline widens the measured box by \<open>w\<close> on each
  side, which the alignment does not account for.
\<close>

theorem styled_text_ink_envelope:
  "let ops = fst (draw_styled_text lib [] text font y W tc align ml mr w sc);
       x = text_x_of align W ml mr (bbox_width (textbbox lib font text));
       l = fst (textbbox lib font text); r = fst (snd (snd (textbbox lib font text)))
   in ink_hspan lib ` set ops = (\<lambda>x'. (x' + l, x' + r)) ` {x - max w 0..x + max w 0} \<and>
      Min (fst ` ink_hspan lib ` set ops) = x - max w 0 + l \<and>
      Max (snd ` ink_hspan lib ` set ops) = x + max w 0 + r"
proof -
  obtain l t r b where bb: "textbbox lib font text = (l, t, r, b)" by (cases "textbbox lib font text") auto
  let ?x = "text_x_of align W ml mr (bbox_width (textbbox lib font text))"
  let ?m = "max w 0"
  have set_eq: "ink_hspan lib ` set (styled_text_ops text font ?x y w sc tc) = (\<lambda>x'. (x' + l, x' + r)) ` {?x - ?m..?x + ?m}"
    using bb by (rule ink_hspan_styled_text_ops)
  have lefts: "fst ` (\<lambda>x'. (x' + l, x' + r)) ` {?x - ?m..?x + ?m} = {?x - ?m + l..?x + ?m + l}"
    by (auto simp: image_image image_iff intro: bexI[where x = "_ - l"])
  have rights: "snd ` (\<lambda>x'. (x' + l, x' + r)) ` {?x - ?m..?x + ?m} = {?x - ?m + r..?x + ?m + r}"
    by (auto simp: image_image image_iff intro: bexI[where x = "_ - r"])
  have "Min {?x - ?m + l..?x + ?m + l} = ?x - ?m + l" "Max {?x - ?m + r..?x + ?m + r} = ?x + ?m + r"
    by (auto intro: Min_eqI Max_eqI)
  with set_eq lefts rights bb show ?thesis
    by (simp add: draw_styled_text_eq Let_def)
qed
subsection \<open>Witnesses\<close>

theorem center_anchor_within_margins_witness:
  "(301::int) \<le> 1000 - 50 - 50 \<and>
   50 \<le> text_x_of CENTER 1000 50 50 301 \<and> text_x_of CENTER 1000 50 50 301 + 301 \<le> 1000 - 50 \<and>
   0 \<le> (1000 - 50 - (text_x_of CENTER 1000 50 50 301 + 301)) - (text_x_of CENTER 1000 50 50 301 - 50) \<and>
   (1000 - 50 - (text_x_of CENTER 1000 50 50 301 + 301)) - (text_x_of CENTER 1000 50 50 301 - 50) \<le> 1"
  using center_anchor_within_margins[of 301 1000 50 50] by simp

theorem overwide_text_crosses_left_margin_witness:
  "(1000::int) - 50 - 50 < 950 \<and> CENTER \<noteq> LEFT \<and> text_x_of CENTER 1000 50 50 950 < 50"
  using overwide_text_crosses_left_margin[of 1000 50 50 950 CENTER] by simp

theorem stroke_footprint_witness:
  "0 < (1::int) \<and>
   (let ops = drop (length ([]::int draw_op list))
                (fst (draw_styled_text demo_lib [] (pystr_of ''ab'') 10 0 100 (RGBc 1 1 1) LEFT 5 5 1 (RGBc 0 0 0)));
        x = text_x_of LEFT 100 5 5 (bbox_width (textbbox demo_lib 10 (pystr_of ''ab'')))
    in fst ` op_pos ` set ops = {x - 1..x + 1} \<and> distinct (map op_pos (butlast ops)) \<and>
       (\<forall>op \<in> set (butlast ops). op_fill op = RGBc 0 0 0) \<and>
       last ops = DrawText (x, 0) (pystr_of ''ab'') 10 (RGBc 1 1 1))"
  using stroke_footprint[of 1 "[]" demo_lib "pystr_of ''ab''" 10 0 100 "RGBc 1 1 1" LEFT 5 5 "RGBc 0 0 0"]
  by simp

end
