(* ===== verification/Composer.thy ===== *)
theory Composer
  imports Prelude PyStr TextAlign ImagingLib Renderer DemoLib Console
begin

text \<open>
  The composer, \<open>create_styled_text_image\<close> of \<open>src/demo4.py\<close> (lines 14 to 120). Its
  keyword arguments are the record \<open>create_args\<close>, with the source's defaults in
  \<open>default_args\<close>. Its observable effects are a \<open>world\<close>: the files written and the
  lines printed. Python returns \<open>None\<close> on every path. An exception that escapes the
  function would be \<open>None\<close> of the result option; the lemmas show that none does. The
  function is split into the blocks of the source:
  \<^item> \<open>load_background\<close>: the first \<open>try\<close> (lines 53 to 59);
  \<^item> \<open>load_fonts\<close>: the second \<open>try\<close> (lines 64 to 69);
  \<^item> \<open>draw_title\<close>: the title call (lines 73 to 87);
  \<^item> \<open>content_line_step\<close>: the body of the content loop (lines 97 to 111);
  \<^item> \<open>draw_content_lines\<close>: the content loop (lines 95 to 111), by structural recursion
    on the list, with the trace and the cursor \<open>content_y\<close> as its state;
  \<^item> \<open>render_text_layer\<close>: lines 71 to 111, the layout of the whole text layer;
  \<^item> \<open>save_output\<close>: the composite and the third \<open>try\<close> (lines 113 to 120).
  Each handled exception carries its text into the printed line (\<open>print_msg\<close>, with
  the messages of the theory \<open>Console\<close>).
  \<open>content_layout\<close> is the abstract specification of the loop. Line \<open>i\<close> (from 0)
  is drawn at \<open>y0 + i * line_spacing\<close> when it is not blank, and a blank line is
  skipped. \<open>draw_content_lines_closed\<close> proves the loop refines it. \<open>layer_op_ok\<close>
  is the type of a call on the text layer: the title's font and colours, or a
  non-blank line's.
\<close>

record create_args =
  output_path :: path
  title_font_path :: path
  content_font_path :: path
  title_font_size :: int
  content_font_size :: int
  title_color :: color
  content_color :: color
  title_stroke_color :: color
  content_stroke_color :: color
  title_stroke_width :: int
  content_stroke_width :: int
  title_align :: text_align
  content_align :: text_align
  margin_left :: int
  margin_right :: int
  title_content_spacing :: int
  content_line_spacing :: rat

definition default_args :: create_args where
  "default_args =
     \<lparr>output_path = pystr_of ''output.jpg'',
      title_font_path = pystr_of ''simhei.ttf'', content_font_path = pystr_of ''simhei.ttf'',
      title_font_size = 80, content_font_size = 40,
      title_color = RGBc 255 255 255, content_color = RGBc 255 255 0,
      title_stroke_color = RGBAc 0 0 0 255, content_stroke_color = RGBAc 0 0 0 255,
      title_stroke_width = 3, content_stroke_width = 2,
      title_align = CENTER, content_align = LEFT,
      margin_left = 50, margin_right = 50,
      title_content_spacing = 50, content_line_spacing = 3 / 2\<rparr>"

record 'px world =
  files :: "path \<Rightarrow> ('px image \<times> nat) option"
    \<comment> \<open>the image file at a path and the quality it was encoded with\<close>
  stdout :: "pystr list"
    \<comment> \<open>the lines printed so far, in order\<close>

definition print_msg :: "'px world \<Rightarrow> message \<Rightarrow> 'px world" where
  "print_msg w m = w\<lparr>stdout := stdout w @ [message_text m]\<rparr>"
  \<comment> \<open>\<open>print(f"...")\<close> of the outcome \<open>m\<close>\<close>

definition load_background :: "('px, 'font) imaging_lib \<Rightarrow> path \<Rightarrow> 'px image py_result" where
  "load_background lib background_path =
     (case image_open_rgba lib background_path of
        Inl e \<Rightarrow> Inl e
      | Inr background \<Rightarrow> Inr (enhance_contrast lib (6 / 5) background))"

definition load_fonts :: "('px, 'font) imaging_lib \<Rightarrow> create_args \<Rightarrow> ('font \<times> 'font) py_result" where
  "load_fonts lib args =
     (case truetype lib (title_font_path args) (title_font_size args) of
        Inl e \<Rightarrow> Inl e
      | Inr title_font \<Rightarrow>
          (case truetype lib (content_font_path args) (content_font_size args) of
             Inl e \<Rightarrow> Inl e
           | Inr content_font \<Rightarrow> Inr (title_font, content_font)))"

definition draw_title ::
  "('px, 'font) imaging_lib \<Rightarrow> create_args \<Rightarrow> 'font draw_op list \<Rightarrow> pystr \<Rightarrow> 'font \<Rightarrow> int \<Rightarrow> int \<Rightarrow>
   'font draw_op list \<times> rat" where
  "draw_title lib args draw title title_font width title_y =
     draw_styled_text lib draw title title_font (of_int title_y) width (title_color args) (title_align args)
       (margin_left args) (margin_right args) (title_stroke_width args) (title_stroke_color args)"

definition content_line_step ::
  "('px, 'font) imaging_lib \<Rightarrow> create_args \<Rightarrow> 'font \<Rightarrow> int \<Rightarrow> rat \<Rightarrow> pystr \<Rightarrow>
   'font draw_op list \<times> rat \<Rightarrow> 'font draw_op list \<times> rat" where
  "content_line_step lib args content_font width line_spacing line st =
     (case st of (draw, content_y) \<Rightarrow>
        let (draw, content_y) =
          (if line_nonblank line
           then draw_styled_text lib draw line content_font content_y width (content_color args)
                  (content_align args) (margin_left args) (margin_right args)
                  (content_stroke_width args) (content_stroke_color args)
           else (draw, content_y))
        in (draw, content_y + line_spacing))"
  \<comment> \<open>the body of the content loop, lines 97 to 111\<close>

fun draw_content_lines ::
  "('px, 'font) imaging_lib \<Rightarrow> create_args \<Rightarrow> 'font \<Rightarrow> int \<Rightarrow> rat \<Rightarrow> pystr list \<Rightarrow>
   'font draw_op list \<times> rat \<Rightarrow> 'font draw_op list \<times> rat" where
  "draw_content_lines lib args content_font width line_spacing [] st = st"
| "draw_content_lines lib args content_font width line_spacing (line # lines) st =
     draw_content_lines lib args content_font width line_spacing lines
       (content_line_step lib args content_font width line_spacing line st)"

definition render_text_layer ::
  "('px, 'font) imaging_lib \<Rightarrow> create_args \<Rightarrow> pystr \<Rightarrow> pystr list \<Rightarrow> 'font \<Rightarrow> 'font \<Rightarrow> nat \<Rightarrow> nat \<Rightarrow>
   'font draw_op list" where
  "render_text_layer lib args title content_lines title_font content_font width height =
     (let title_y = int height div 6;
          (draw, _) = draw_title lib args [] title title_font (int width) title_y;
          content_y = of_int (title_y + title_font_size args + title_content_spacing args);
          line_spacing = of_int (content_font_size args) * content_line_spacing args
      in fst (draw_content_lines lib args content_font (int width) line_spacing content_lines (draw, content_y)))"

definition save_output ::
  "('px, 'font) imaging_lib \<Rightarrow> 'px image \<Rightarrow> 'px image \<Rightarrow> path \<Rightarrow> 'px world \<Rightarrow> 'px world option" where
  "save_output lib background txt out_path w =
     (case alpha_composite lib background txt of
        None \<Rightarrow> None
      | Some out \<Rightarrow>
          (let out = convert_rgb lib out
           in case encode lib out_path 95 (img_pixels out) of
                Inr _ \<Rightarrow> Some (print_msg (w\<lparr>files := (files w)(out_path \<mapsto> (out, 95))\<rparr>) (SavedTo out_path))
              | Inl e \<Rightarrow> Some (print_msg w (SaveError e))))"

definition create_styled_text_image ::
  "('px, 'font) imaging_lib \<Rightarrow> path \<Rightarrow> pystr \<Rightarrow> pystr list \<Rightarrow> create_args \<Rightarrow> 'px world \<Rightarrow> 'px world option" where
  "create_styled_text_image lib background_path title content_lines args w =
     (case load_background lib background_path of
        Inl e \<Rightarrow> Some (print_msg w (BackgroundOpenError e))
      | Inr background \<Rightarrow>
          (let txt = image_new lib RGBA (img_size background) (RGBAc 255 255 255 0)
           in case load_fonts lib args of
                Inl e \<Rightarrow> Some (print_msg w (FontLoadError e))
              | Inr (title_font, content_font) \<Rightarrow>
                  (let (width, height) = img_size background;
                       draw = render_text_layer lib args title content_lines title_font content_font width height
                   in save_output lib background (rasterize lib txt draw) (output_path args) w)))"

subsection \<open>The abstract layout\<close>

definition content_layout :: "rat \<Rightarrow> rat \<Rightarrow> pystr list \<Rightarrow> (rat \<times> pystr) list" where
  "content_layout y0 line_spacing lines =
     [(y0 + of_nat i * line_spacing, line). (i, line) \<leftarrow> enumerate 0 lines, line_nonblank line]"

definition content_block ::
  "('px, 'font) imaging_lib \<Rightarrow> create_args \<Rightarrow> 'font \<Rightarrow> int \<Rightarrow> rat \<times> pystr \<Rightarrow> 'font draw_op list" where
  "content_block lib args font width yl =
     (case yl of (y, line) \<Rightarrow>
        styled_text_ops line font
          (text_x_of (content_align args) width (margin_left args) (margin_right args)
             (bbox_width (textbbox lib font line)))
          y (content_stroke_width args) (content_stroke_color args) (content_color args))"

definition title_block ::
  "('px, 'font) imaging_lib \<Rightarrow> create_args \<Rightarrow> 'font \<Rightarrow> int \<Rightarrow> int \<Rightarrow> pystr \<Rightarrow> 'font draw_op list" where
  "title_block lib args font width title_y title =
     styled_text_ops title font
       (text_x_of (title_align args) width (margin_left args) (margin_right args)
          (bbox_width (textbbox lib font title)))
       (of_int title_y) (title_stroke_width args) (title_stroke_color args) (title_color args)"

definition per_line_calls :: "int \<Rightarrow> nat" where
  "per_line_calls w = (if 0 < w then nat ((2 * w + 1)\<^sup>2) + 1 else 1)"

definition layer_op_ok ::
  "create_args \<Rightarrow> pystr \<Rightarrow> pystr list \<Rightarrow> 'font \<Rightarrow> 'font \<Rightarrow> 'font draw_op \<Rightarrow> bool" where
  "layer_op_ok args title lines title_font content_font op \<longleftrightarrow>
     (op_text op = title \<and> op_font op = title_font \<and>
      (op_fill op = title_stroke_color args \<or> op_fill op = title_color args)) \<or>
     (op_text op \<in> set lines \<and> line_nonblank (op_text op) \<and> op_font op = content_font \<and>
      (op_fill op = content_stroke_color args \<or> op_fill op = content_color args))"
  \<comment> \<open>a well-typed call on the text layer: the title in the title font and a title colour,
      or a non-blank content line in the content font and a content colour\<close>

subsection \<open>The content loop refines the layout\<close>

lemma content_layout_Nil [simp]: "content_layout y ls [] = []"
  by (simp add: content_layout_def)

lemma content_layout_Cons:
  "content_layout y ls (line # lines) =
     (if line_nonblank line then [(y, line)] else []) @ content_layout (y + ls) ls lines"
  unfolding content_layout_def
  by (simp add: enumerate_Suc_eq comp_def)
     (intro arg_cong[where f = concat] map_cong refl; auto simp: algebra_simps)

lemma draw_content_lines_closed:
  "draw_content_lines lib args font W ls lines (draw, y) =
     (draw @ concat (map (content_block lib args font W) (content_layout y ls lines)),
      y + of_nat (length lines) * ls)"
proof (induction lines arbitrary: draw y)
  case Nil
  then show ?case by simp
next
  case (Cons line lines)
  show ?case
    by (simp add: Cons.IH content_layout_Cons content_line_step_def draw_styled_text_eq
        content_block_def algebra_simps)
qed

lemma render_text_layer_eq:
  "render_text_layer lib args title lines tf cf wd ht =
     title_block lib args tf (int wd) (int ht div 6) title @
     concat (map (content_block lib args cf (int wd))
       (content_layout (of_int (int ht div 6 + title_font_size args + title_content_spacing args))
          (of_int (content_font_size args) * content_line_spacing args) lines))"
  by (simp add: render_text_layer_def draw_title_def draw_styled_text_eq title_block_def
      draw_content_lines_closed Let_def)

lemma content_block_length:
  "length (content_block lib args font W yl) = per_line_calls (content_stroke_width args)"
  by (simp add: content_block_def per_line_calls_def styled_text_ops_length split: prod.splits)

lemma title_block_length:
  "length (title_block lib args font W y title) = per_line_calls (title_stroke_width args)"
  by (simp add: title_block_def per_line_calls_def styled_text_ops_length)

lemma content_layout_length: "length (content_layout y ls lines) = length (filter line_nonblank lines)"
  by (induction lines arbitrary: y) (simp_all add: content_layout_Cons)

lemma content_layout_texts: "map snd (content_layout y ls lines) = filter line_nonblank lines"
  by (induction lines arbitrary: y) (simp_all add: content_layout_Cons)

lemma content_layout_set:
  assumes "yl \<in> set (content_layout y ls lines)"
  shows "snd yl \<in> set lines \<and> line_nonblank (snd yl)"
proof -
  from assms have "snd yl \<in> set (map snd (content_layout y ls lines))" by simp
  then show ?thesis by (simp add: content_layout_texts)
qed

subsection \<open>The pipeline\<close>

lemma load_background_eq:
  "load_background lib p =
     (case decode lib p of
        Inl e \<Rightarrow> Inl e
      | Inr (w, h, px) \<Rightarrow> Inr \<lparr>img_size = (w, h), img_mode = RGBA,
                               img_pixels = contrast lib (6 / 5) (to_rgba lib px)\<rparr>)"
  by (simp add: load_background_def image_open_rgba_def enhance_contrast_def
      split: sum.splits prod.splits)

lemma load_fonts_eq:
  "load_fonts lib args =
     (case (truetype lib (title_font_path args) (title_font_size args),
            truetype lib (content_font_path args) (content_font_size args)) of
        (Inl e, _) \<Rightarrow> Inl e
      | (Inr tf, Inl e) \<Rightarrow> Inl e
      | (Inr tf, Inr cf) \<Rightarrow> Inr (tf, cf))"
  by (simp add: load_fonts_def split: sum.splits)

lemma save_output_layer:
  assumes "img_mode bg = RGBA" and "img_size txt = img_size bg" and "img_mode txt = RGBA"
  shows "save_output lib bg txt p w =
           (let out = \<lparr>img_size = img_size bg, img_mode = RGB,
                       img_pixels = to_rgb lib (blend lib (img_pixels bg) (img_pixels txt))\<rparr>
            in Some (case encode lib p 95 (img_pixels out) of
                       Inr _ \<Rightarrow> print_msg (w\<lparr>files := (files w)(p \<mapsto> (out, 95))\<rparr>) (SavedTo p)
                     | Inl e \<Rightarrow> print_msg w (SaveError e)))"
  using assms by (simp add: save_output_def alpha_composite_def convert_rgb_def Let_def split: sum.splits)

lemmas composer_pipeline_simps =
  create_styled_text_image_def load_background_eq load_fonts_eq Let_def

lemma content_block_texts:
  "map op_text (content_block lib args font W yl) = replicate (per_line_calls (content_stroke_width args)) (snd yl)"
proof -
  have "\<forall>op \<in> set (content_block lib args font W yl). op_text op = snd yl"
    by (auto simp: content_block_def dest: styled_text_ops_texts split: prod.splits)
  then have "map op_text (content_block lib args font W yl) =
               replicate (length (content_block lib args font W yl)) (snd yl)"
    by (simp add: map_replicate_const[symmetric] cong: map_cong)
  then show ?thesis by (simp add: content_block_length)
qed

lemma print_msg_eq [simp]: "print_msg w m = w\<lparr>stdout := stdout w @ [message_text m]\<rparr>"
  by (simp add: print_msg_def)

lemma text_layer_shape:
  "img_size (rasterize lib (image_new lib RGBA s c) ops) = s"
  "img_mode (rasterize lib (image_new lib RGBA s c) ops) = RGBA"
  by simp_all

subsection \<open>Properties of the composer\<close>

text \<open>
  C8. The content loop refines its specification. Starting from a trace \<open>draw\<close> and
  a cursor \<open>y0\<close>, it appends, for each non-blank line \<open>i\<close> (counted from 0) in
  order, the renderer's calls for that line at \<open>y = y0 + i * line_spacing\<close>. It
  ends with the cursor at \<open>y0 + n * line_spacing\<close> for \<open>n\<close> lines. Blank lines add
  no call but still advance the cursor.
\<close>

theorem content_loop_refines_layout:
  "draw_content_lines lib args font W ls lines (draw, y0) =
     (draw @ concat [styled_text_ops line font
                       (text_x_of (content_align args) W (margin_left args) (margin_right args)
                          (bbox_width (textbbox lib font line)))
                       (y0 + of_nat i * ls) (content_stroke_width args) (content_stroke_color args)
                       (content_color args).
                     (i, line) \<leftarrow> enumerate 0 lines, line_nonblank line],
      y0 + of_nat (length lines) * ls)"
proof -
  have "concat (map (content_block lib args font W) (content_layout y0 ls lines)) =
        concat [styled_text_ops line font
                  (text_x_of (content_align args) W (margin_left args) (margin_right args)
                     (bbox_width (textbbox lib font line)))
                  (y0 + of_nat i * ls) (content_stroke_width args) (content_stroke_color args)
                  (content_color args).
                (i, line) \<leftarrow> enumerate 0 lines, line_nonblank line]"
    by (induction lines rule: rev_induct)
       (simp_all add: content_layout_def content_block_def enumerate_append_eq split_def)
  then show ?thesis by (simp add: draw_content_lines_closed)
qed

text \<open>
  C9. Blank lines never draw, and the cursor advances for every line. The texts that
  the content loop draws are the non-blank lines in their order, each repeated once
  per call that the renderer makes for it. The cursor ends at
  \<open>y + n * line_spacing\<close> whether the lines are blank or not.
\<close>

theorem content_loop_skips_blank_lines:
  "map op_text (fst (draw_content_lines lib args font W ls lines (draw, y))) =
     map op_text draw @
     concat (map (\<lambda>line. replicate (per_line_calls (content_stroke_width args)) line) (filter line_nonblank lines)) \<and>
   snd (draw_content_lines lib args font W ls lines (draw, y)) = y + of_nat (length lines) * ls"
proof -
  have "map op_text (concat (map (content_block lib args font W) (content_layout y ls lines))) =
        concat (map (\<lambda>line. replicate (per_line_calls (content_stroke_width args)) line)
                  (map snd (content_layout y ls lines)))"
    by (simp add: map_concat comp_def content_block_texts)
  then show ?thesis
    by (simp add: draw_content_lines_closed content_layout_texts)
qed

text \<open>
  C10. If the background image cannot be opened or decoded, the composer prints the
  background error with the exception's text and returns. It writes no file, does
  not try the fonts, and raises nothing.
\<close>

theorem create_background_open_failure:
  assumes "decode lib background_path = Inl e"
  shows "create_styled_text_image lib background_path title lines args w =
           Some (w\<lparr>stdout := stdout w @ [message_text (BackgroundOpenError e)]\<rparr>)"
  using assms by (simp add: composer_pipeline_simps)

text \<open>
  C11. If the background opens but a font fails to load, the composer prints the font
  error and returns, writing no file and raising nothing. The title font is loaded
  first, so the printed cause is the title font's exception when both fail, and the
  content font's exception when only it fails.
\<close>

theorem create_font_load_failure:
  assumes "decode lib background_path = Inr img"
    and "truetype lib (title_font_path args) (title_font_size args) = Inl e \<or>
         (\<exists>tf. truetype lib (title_font_path args) (title_font_size args) = Inr tf \<and>
               truetype lib (content_font_path args) (content_font_size args) = Inl e)"
  shows "create_styled_text_image lib background_path title lines args w =
           Some (w\<lparr>stdout := stdout w @ [message_text (FontLoadError e)]\<rparr>)"
  using assms by (auto simp: composer_pipeline_simps split: prod.splits)

text \<open>
  C12. When the background and both fonts load, the composer builds the output
  without raising. The output is the text layer (a transparent RGBA image of the
  background's size after the recorded draw calls) composited over the
  contrast-enhanced background, then converted to RGB. If encoding succeeds, the
  composer writes exactly this image at \<open>output_path\<close> with quality 95 and prints the
  saved message with the path. Otherwise it writes nothing and prints the save error
  with the exception's text.
\<close>

theorem create_output_image:
  assumes "decode lib background_path = Inr (wd, ht, px)"
    and "truetype lib (title_font_path args) (title_font_size args) = Inr tf"
    and "truetype lib (content_font_path args) (content_font_size args) = Inr cf"
  shows "let layer = rasterize lib (image_new lib RGBA (wd, ht) (RGBAc 255 255 255 0))
                       (render_text_layer lib args title lines tf cf wd ht);
             out = \<lparr>img_size = (wd, ht), img_mode = RGB,
                    img_pixels = to_rgb lib (blend lib (contrast lib (6 / 5) (to_rgba lib px)) (img_pixels layer))\<rparr>
         in create_styled_text_image lib background_path title lines args w =
              Some (case encode lib (output_path args) 95 (img_pixels out) of
                      Inr _ \<Rightarrow> w\<lparr>files := (files w)(output_path args \<mapsto> (out, 95)),
                               stdout := stdout w @ [message_text (SavedTo (output_path args))]\<rparr>
                    | Inl e \<Rightarrow> w\<lparr>stdout := stdout w @ [message_text (SaveError e)]\<rparr>)"
  using assms by (simp add: composer_pipeline_simps save_output_layer split: sum.splits)

text \<open>
  C13. \<open>create_styled_text_image\<close> never lets an exception escape. The one
  uncaught call, \<open>Image.alpha_composite\<close> (line 114), always gets two RGBA images of
  the same size, because the text layer is created from the background's size and
  drawing does not change it. The library's measuring and drawing calls and \<open>print\<close> are
  total in the model, so \<open>alpha_composite\<close> is the only uncaught call that can fail
  here.
\<close>

theorem create_never_raises:
  "create_styled_text_image lib background_path title lines args w \<noteq> None"
  by (simp add: composer_pipeline_simps save_output_layer split: sum.splits)

text \<open>
  C14. Every run prints exactly one message and changes no file except the one at
  \<open>output_path\<close>.
\<close>

theorem create_frame:
  assumes "create_styled_text_image lib background_path title lines args w = Some w'"
  shows "(\<forall>p. p \<noteq> output_path args \<longrightarrow> files w' p = files w p) \<and>
         (\<exists>m. stdout w' = stdout w @ [message_text m])"
  using assms
  by (auto simp: composer_pipeline_simps save_output_layer simp del: message_text.simps
      split: sum.splits prod.splits) blast+

text \<open>
  C15. The text layer receives one block of calls for the title, even when the title
  is blank, and one block for each non-blank content line. A block is
  \<open>(2w+1)\<^sup>2 + 1\<close> calls for a positive stroke width \<open>w\<close>, and 1 call otherwise.
\<close>

theorem text_layer_call_count:
  "length (render_text_layer lib args title lines tf cf wd ht) =
     per_line_calls (title_stroke_width args) +
     length (filter line_nonblank lines) * per_line_calls (content_stroke_width args)"
proof -
  have "length (concat (map (content_block lib args cf (int wd))
          (content_layout (of_int (int ht div 6 + title_font_size args + title_content_spacing args))
             (of_int (content_font_size args) * content_line_spacing args) lines))) =
        length (filter line_nonblank lines) * per_line_calls (content_stroke_width args)"
    by (simp add: length_concat_map_const content_block_length content_layout_length)
  then show ?thesis by (simp add: render_text_layer_eq title_block_length)
qed

text \<open>
  C19. Every call on the text layer is well typed. It draws the title in the title
  font, in the title's stroke or fill colour, or it draws a non-blank content line in
  the content font, in the content stroke or fill colour. No call mixes the two
  styles, and no blank line and no other text is drawn.
\<close>

theorem text_layer_ops_typed:
  "list_all (layer_op_ok args title lines tf cf) (render_text_layer lib args title lines tf cf wd ht)"
proof -
  have title: "layer_op_ok args title lines tf cf op"
    if "op \<in> set (title_block lib args tf (int wd) (int ht div 6) title)" for op
    using that by (auto simp: title_block_def layer_op_ok_def dest: styled_text_ops_sel)
  have content: "layer_op_ok args title lines tf cf op"
    if "yl \<in> set (content_layout y0 sp lines)" "op \<in> set (content_block lib args cf (int wd) yl)" for op yl y0 sp
  proof -
    obtain y line where yl: "yl = (y, line)" by (cases yl)
    from that(1) yl have "line \<in> set lines" "line_nonblank line" by (auto dest: content_layout_set)
    with that(2) yl show ?thesis
      by (auto simp: content_block_def layer_op_ok_def dest: styled_text_ops_sel)
  qed
  show ?thesis
    by (auto simp: render_text_layer_eq list_all_iff dest: title content)
qed

end
