(* ===== verification/ComposerSteps.thy ===== *)
theory ComposerSteps
  imports Prelude ImagingLib Renderer Composer
begin

text \<open>
  The composer \<open>create_styled_text_image\<close> (\<open>src/demo4.py\<close>, lines 14 to 120) seen
  as a state machine over its phases. The source runs these phases in order: it
  opens the background (lines 53 to 59) and creates the layer (line 61), loads the
  fonts (lines 64 to 69), draws the title (lines 73 to 90), runs one loop iteration
  per content line (lines 96 to 111), and composites and saves (lines 113 to 120).
  \<open>compose_step\<close> has one rule per transition, and its premises are the source's
  conditions. Each loop iteration is one step (\<open>content_line_step\<close>), so a run shows
  the order of every operation on the shared layer. \<open>Raised\<close> is the state an
  uncaught exception would leave.

  The machine is deterministic. The invariant \<open>layer_ok\<close> holds in every reachable
  state, by rule induction: while a background and a layer exist, both are RGBA and
  of the same size, and \<open>Raised\<close> is never reached.
\<close>

datatype ('px, 'font) phase =
    Start
  | Opened "'px image" "'px image"
      \<comment> \<open>background and transparent layer \<open>txt\<close>\<close>
  | FontsReady "'px image" "'px image" 'font 'font
  | Lines "'px image" "'px image" 'font "'font draw_op list" rat "pystr list"
      \<comment> \<open>the loop: content font, drawing trace, \<open>content_y\<close>, lines left\<close>
  | Finished "'px world"
  | Raised

inductive compose_step ::
  "('px, 'font) imaging_lib \<Rightarrow> path \<Rightarrow> pystr \<Rightarrow> pystr list \<Rightarrow> create_args \<Rightarrow> 'px world \<Rightarrow>
   ('px, 'font) phase \<Rightarrow> ('px, 'font) phase \<Rightarrow> bool"
  for lib background_path title content_lines args w
where
  open_fail: "load_background lib background_path = Inl e \<Longrightarrow>
    compose_step lib background_path title content_lines args w Start (Finished (print_msg w (BackgroundOpenError e)))"
| open_ok: "load_background lib background_path = Inr bg \<Longrightarrow>
    compose_step lib background_path title content_lines args w Start
      (Opened bg (image_new lib RGBA (img_size bg) (RGBAc 255 255 255 0)))"
| fonts_fail: "load_fonts lib args = Inl e \<Longrightarrow>
    compose_step lib background_path title content_lines args w (Opened bg txt) (Finished (print_msg w (FontLoadError e)))"
| fonts_ok: "load_fonts lib args = Inr (tf, cf) \<Longrightarrow>
    compose_step lib background_path title content_lines args w (Opened bg txt) (FontsReady bg txt tf cf)"
| title_drawn: "img_size bg = (wd, ht) \<Longrightarrow>
    compose_step lib background_path title content_lines args w (FontsReady bg txt tf cf)
      (Lines bg txt cf (fst (draw_title lib args [] title tf (int wd) (int ht div 6)))
         (of_int (int ht div 6 + title_font_size args + title_content_spacing args)) content_lines)"
| line_done: "img_size bg = (wd, ht) \<Longrightarrow>
    content_line_step lib args cf (int wd) (of_int (content_font_size args) * content_line_spacing args)
      l (draw, y) = (draw', y') \<Longrightarrow>
    compose_step lib background_path title content_lines args w (Lines bg txt cf draw y (l # ls))
      (Lines bg txt cf draw' y' ls)"
| saved: "save_output lib bg (rasterize lib txt draw) (output_path args) w = Some w' \<Longrightarrow>
    compose_step lib background_path title content_lines args w (Lines bg txt cf draw y []) (Finished w')"
| raised: "save_output lib bg (rasterize lib txt draw) (output_path args) w = None \<Longrightarrow>
    compose_step lib background_path title content_lines args w (Lines bg txt cf draw y []) Raised"

definition layer_matches :: "'px image \<Rightarrow> 'px image \<Rightarrow> bool" where
  "layer_matches bg txt \<longleftrightarrow> img_mode bg = RGBA \<and> img_mode txt = RGBA \<and> img_size txt = img_size bg"

fun layer_ok :: "('px, 'font) phase \<Rightarrow> bool" where
  "layer_ok (Opened bg txt) = layer_matches bg txt"
| "layer_ok (FontsReady bg txt tf cf) = layer_matches bg txt"
| "layer_ok (Lines bg txt cf draw y rest) = layer_matches bg txt"
| "layer_ok Raised = False"
| "layer_ok Start = True"
| "layer_ok (Finished w') = True"

inductive_cases compose_step_StartE: "compose_step lib p t ls a w Start s"
inductive_cases compose_step_OpenedE: "compose_step lib p t ls a w (Opened bg txt) s"
inductive_cases compose_step_FontsReadyE: "compose_step lib p t ls a w (FontsReady bg txt tf cf) s"
inductive_cases compose_step_LinesE: "compose_step lib p t ls a w (Lines bg txt cf draw y rest) s"
inductive_cases compose_step_FinishedE: "compose_step lib p t ls a w (Finished w') s"
inductive_cases compose_step_RaisedE: "compose_step lib p t ls a w Raised s"

lemmas compose_step_elims =
  compose_step_StartE compose_step_OpenedE compose_step_FontsReadyE compose_step_LinesE
  compose_step_FinishedE compose_step_RaisedE

subsection \<open>Basic facts of the machine\<close>

lemma compose_step_final:
  "\<not> compose_step lib p t ls a w (Finished w') s" "\<not> compose_step lib p t ls a w Raised s"
  by (auto elim: compose_step_elims)

lemma compose_step_deterministic:
  "compose_step lib p t ls a w s s1 \<Longrightarrow> compose_step lib p t ls a w s s2 \<Longrightarrow> s1 = s2"
  by (induction rule: compose_step.induct) (auto elim: compose_step_elims)

lemma load_background_mode: "load_background lib p = Inr bg \<Longrightarrow> img_mode bg = RGBA"
  by (auto simp: load_background_eq split: sum.splits)

subsection \<open>Properties of the machine\<close>

text \<open>
  C17. Every state reachable from \<open>Start\<close> keeps the layer invariant. While a
  background and a layer exist, both are RGBA and the layer has the background's
  size, and the state \<open>Raised\<close> never occurs. Each step keeps this: opening creates
  the layer from the background's size, and the loading and drawing steps change
  neither image.
\<close>

theorem compose_reachable_layer_ok:
  assumes "(compose_step lib background_path title lines args w)\<^sup>*\<^sup>* Start s"
  shows "layer_ok s"
proof -
  have step: "\<And>s s'. compose_step lib background_path title lines args w s s' \<Longrightarrow> layer_ok s \<Longrightarrow> layer_ok s'"
  proof -
    fix s s' assume "compose_step lib background_path title lines args w s s'" "layer_ok s"
    then show "layer_ok s'"
      by (induction rule: compose_step.induct)
         (auto simp: layer_matches_def load_background_mode save_output_layer Let_def)
  qed
  from assms show ?thesis
    by (induction rule: rtranclp_induct) (auto dest: step)
qed

end
