(* ===== verification/FloatCursor.thy ===== *)
theory FloatCursor
  imports Prelude PyStr PyFloat ImagingLib Renderer Composer
begin

text \<open>
  The content cursor of \<open>create_styled_text_image\<close> with Python's float arithmetic.
  \<open>line_spacing = content_font_size * content_line_spacing\<close> (line 93) multiplies an
  \<open>int\<close> by a \<open>float\<close>. \<open>content_y\<close> starts as an \<open>int\<close> (line 90), and
  \<open>content_y += line_spacing\<close> (line 111) is a float addition. The Composer model
  computes both exactly, in \<open>rat\<close>. Here they are rounded by \<open>fl\<close> of the theory
  \<open>PyFloat\<close>. \<open>content_line_step_fl\<close>, \<open>draw_content_lines_fl\<close> and
  \<open>render_text_layer_fl\<close> are the Composer's definitions with that one change. The
  spacing argument holds the float's exact value; the literal \<open>1.2\<close> is
  \<open>fl (6 / 5)\<close>.

  C22 shows that the float cursor gives exactly the specified positions
  \<open>y0 + i * line_spacing\<close> whenever the line spacing is a whole number and every cursor
  value stays below \<open>2\<^sup>5\<^sup>3\<close>. This holds for the defaults (\<open>40 * 1.5 = 60\<close>) and for
  the example (\<open>180 * 1.0 = 180\<close>). C23 bounds the drift in general: at most two
  half-ulp roundings per line. A spacing that is not whole does drift; for example,
  with a font size of 21 and a spacing of 1.2, five additions from 171 give
  \<open>296.99999999999994\<close> instead of 297 (checked in CPython).
\<close>

definition content_line_step_fl ::
  "('px, 'font) imaging_lib \<Rightarrow> create_args \<Rightarrow> 'font \<Rightarrow> int \<Rightarrow> rat \<Rightarrow> pystr \<Rightarrow>
   'font draw_op list \<times> rat \<Rightarrow> 'font draw_op list \<times> rat" where
  "content_line_step_fl lib args content_font width line_spacing line st =
     (case st of (draw, content_y) \<Rightarrow>
        let (draw, content_y) =
          (if line_nonblank line
           then draw_styled_text lib draw line content_font content_y width (content_color args)
                  (content_align args) (margin_left args) (margin_right args)
                  (content_stroke_width args) (content_stroke_color args)
           else (draw, content_y))
        in (draw, fl (fl content_y + line_spacing)))"
  \<comment> \<open>lines 97 to 111: \<open>content_y += line_spacing\<close> converts an \<open>int\<close> cursor with
      \<open>float()\<close> and adds in binary64\<close>

fun draw_content_lines_fl ::
  "('px, 'font) imaging_lib \<Rightarrow> create_args \<Rightarrow> 'font \<Rightarrow> int \<Rightarrow> rat \<Rightarrow> pystr list \<Rightarrow>
   'font draw_op list \<times> rat \<Rightarrow> 'font draw_op list \<times> rat" where
  "draw_content_lines_fl lib args content_font width line_spacing [] st = st"
| "draw_content_lines_fl lib args content_font width line_spacing (line # lines) st =
     draw_content_lines_fl lib args content_font width line_spacing lines
       (content_line_step_fl lib args content_font width line_spacing line st)"

definition render_text_layer_fl ::
  "('px, 'font) imaging_lib \<Rightarrow> create_args \<Rightarrow> pystr \<Rightarrow> pystr list \<Rightarrow> 'font \<Rightarrow> 'font \<Rightarrow> nat \<Rightarrow> nat \<Rightarrow>
   'font draw_op list" where
  "render_text_layer_fl lib args title content_lines title_font content_font width height =
     (let title_y = int height div 6;
          (draw, _) = draw_title lib args [] title title_font (int width) title_y;
          content_y = of_int (title_y + title_font_size args + title_content_spacing args);
          line_spacing = fl (fl (of_int (content_font_size args)) * content_line_spacing args)
      in fst (draw_content_lines_fl lib args content_font (int width) line_spacing content_lines (draw, content_y)))"
  \<comment> \<open>lines 71 to 111, with the float product of line 93\<close>

lemma content_line_step_fl_int:
  assumes "\<bar>y\<bar> < 2 ^ 53" and "\<bar>y + L\<bar> < 2 ^ 53"
  shows "content_line_step_fl lib args cf W (of_int L) line (draw, of_int y) =
         content_line_step lib args cf W (of_int L) line (draw, of_int y)"
proof -
  have "fl (fl (of_int y) + of_int L) = of_int y + of_int L"
    using assms by (simp add: fl_of_int flip: of_int_add)
  then show ?thesis
    by (simp add: content_line_step_fl_def content_line_step_def draw_styled_text_eq Let_def)
qed

lemma draw_content_lines_fl_int:
  assumes "\<forall>i \<le> length lines. \<bar>y + int i * L\<bar> < 2 ^ 53"
  shows "draw_content_lines_fl lib args cf W (of_int L) lines (draw, of_int y) =
         draw_content_lines lib args cf W (of_int L) lines (draw, of_int y)"
  using assms
proof (induction lines arbitrary: draw y)
  case Nil
  then show ?case by simp
next
  case (Cons line lines)
  have y: "\<bar>y\<bar> < 2 ^ 53" using Cons.prems[rule_format, of 0] by simp
  have yL: "\<bar>y + L\<bar> < 2 ^ 53" using Cons.prems[rule_format, of 1] by simp
  obtain d' y' where step: "content_line_step lib args cf W (of_int L) line (draw, of_int y) = (d', y')"
    by (cases "content_line_step lib args cf W (of_int L) line (draw, of_int y)")
  have y': "y' = of_int (y + L)"
    using step by (auto simp: content_line_step_def draw_styled_text_eq Let_def split: if_splits)
  have "\<forall>i \<le> length lines. \<bar>(y + L) + int i * L\<bar> < 2 ^ 53"
  proof (intro allI impI)
    fix i assume "i \<le> length lines"
    then have "Suc i \<le> length (line # lines)" by simp
    with Cons.prems have "\<bar>y + int (Suc i) * L\<bar> < 2 ^ 53" by blast
    then show "\<bar>(y + L) + int i * L\<bar> < 2 ^ 53" by (simp add: algebra_simps)
  qed
  then have "draw_content_lines_fl lib args cf W (of_int L) lines (d', of_int (y + L)) =
             draw_content_lines lib args cf W (of_int L) lines (d', of_int (y + L))"
    by (rule Cons.IH)
  moreover have "content_line_step_fl lib args cf W (of_int L) line (draw, of_int y) = (d', of_int (y + L))"
    using content_line_step_fl_int[OF y yL, of lib args cf W line draw] step y' by simp
  ultimately show ?case using step y' by simp
qed

text \<open>
  C22. With a whole line spacing, Python's float cursor places the lines exactly where
  the specification does. If \<open>content_font_size * content_line_spacing\<close> is an integer
  \<open>L\<close> and every cursor value \<open>y0 + i * L\<close> for \<open>i \<le> n\<close> (\<open>n\<close> content lines) is below
  \<open>2\<^sup>5\<^sup>3\<close> in magnitude, then the text layer drawn with binary64 arithmetic is the
  title's block followed by one block per non-blank line \<open>i\<close> at
  \<open>y0 = title_y + title_font_size + title_content_spacing\<close> plus \<open>i * L\<close>, as
  \<open>content_layout\<close> specifies (spec, section 4.2, steps 6 and 7).
\<close>

theorem float_cursor_exact:
  assumes "of_int (content_font_size args) * content_line_spacing args = of_int L"
    and "\<bar>content_font_size args\<bar> < 2 ^ 53" and "\<bar>L\<bar> < 2 ^ 53"
    and "\<forall>i \<le> length lines.
           \<bar>int ht div 6 + title_font_size args + title_content_spacing args + int i * L\<bar> < 2 ^ 53"
  shows "render_text_layer_fl lib args title lines tf cf wd ht =
           title_block lib args tf (int wd) (int ht div 6) title @
           concat (map (content_block lib args cf (int wd))
             (content_layout (of_int (int ht div 6 + title_font_size args + title_content_spacing args))
                (of_int L) lines))"
proof -
  have ls: "fl (fl (of_int (content_font_size args)) * content_line_spacing args) = of_int L"
    using assms(1-3) by (simp add: fl_of_int)
  have loop: "draw_content_lines_fl lib args cf (int wd) (of_int L) lines
                (fst (draw_title lib args [] title tf (int wd) (int ht div 6)),
                 of_int (int ht div 6 + title_font_size args + title_content_spacing args)) =
              draw_content_lines lib args cf (int wd) (of_int L) lines
                (fst (draw_title lib args [] title tf (int wd) (int ht div 6)),
                 of_int (int ht div 6 + title_font_size args + title_content_spacing args))"
    using assms(4) by (rule draw_content_lines_fl_int)
  have "render_text_layer_fl lib args title lines tf cf wd ht = render_text_layer lib args title lines tf cf wd ht"
    unfolding render_text_layer_fl_def render_text_layer_def ls assms(1) Let_def split_def
    using loop by simp
  then show ?thesis by (simp add: render_text_layer_eq assms(1))
qed

lemma draw_content_lines_fl_cursor:
  "snd (draw_content_lines_fl lib args cf W ls lines (draw, y)) = fold (\<lambda>_ y. fl (fl y + ls)) lines y"
proof (induction lines arbitrary: draw y)
  case Nil
  then show ?case by simp
next
  case (Cons line lines)
  obtain d' y' where step: "content_line_step_fl lib args cf W ls line (draw, y) = (d', y')"
    by (cases "content_line_step_fl lib args cf W ls line (draw, y)")
  then have "y' = fl (fl y + ls)"
    by (auto simp: content_line_step_fl_def draw_styled_text_eq Let_def split: if_splits)
  with step Cons.IH[of d' y'] show ?case by simp
qed

lemma fold_fl_cursor_drift:
  assumes "\<forall>k < length xs. \<bar>fold (\<lambda>_ y. fl (fl y + ls)) (take k xs) y\<bar> \<le> B \<and>
                            \<bar>fl (fold (\<lambda>_ y. fl (fl y + ls)) (take k xs) y) + ls\<bar> \<le> B"
  shows "\<bar>fold (\<lambda>_ y. fl (fl y + ls)) xs y - (y + of_nat (length xs) * ls)\<bar> \<le>
           2 * of_nat (length xs) * max (B / 2 ^ 53) (1 / 2 ^ 1075)"
  using assms
proof (induction xs rule: rev_induct)
  case Nil
  then show ?case by simp
next
  case (snoc x xs)
  let ?Y = "fold (\<lambda>_ y. fl (fl y + ls)) xs y"
  let ?eps = "max (B / 2 ^ 53) (1 / 2 ^ 1075 :: rat)"
  have "\<forall>k < length xs. \<bar>fold (\<lambda>_ y. fl (fl y + ls)) (take k xs) y\<bar> \<le> B \<and>
                        \<bar>fl (fold (\<lambda>_ y. fl (fl y + ls)) (take k xs) y) + ls\<bar> \<le> B"
    using snoc.prems by auto
  then have ih: "\<bar>?Y - (y + of_nat (length xs) * ls)\<bar> \<le> 2 * of_nat (length xs) * ?eps"
    by (rule snoc.IH)
  from snoc.prems have b1: "\<bar>?Y\<bar> \<le> B" and b2: "\<bar>fl ?Y + ls\<bar> \<le> B"
    by (auto dest: spec[of _ "length xs"])
  have e1: "\<bar>fl ?Y - ?Y\<bar> \<le> ?eps" using b1 by (rule fl_error_le)
  have e2: "\<bar>fl (fl ?Y + ls) - (fl ?Y + ls)\<bar> \<le> ?eps" using b2 by (rule fl_error_le)
  from ih e1 e2 show ?case
    by (simp add: abs_le_iff algebra_simps)
qed

text \<open>
  C23. The drift of the float cursor is bounded. While the cursor and each sum it
  rounds stay within \<open>B\<close> in magnitude, every \<open>content_y += line_spacing\<close> adds at
  most two roundings of half an ulp (converting the cursor and rounding the sum). So
  after \<open>n\<close> content lines the cursor is within \<open>2n * max (B / 2\<^sup>5\<^sup>3) 2\<^sup>-\<^sup>1\<^sup>0\<^sup>7\<^sup>5\<close> of the
  exact \<open>y0 + n * line_spacing\<close>, blank lines included.
\<close>

theorem float_cursor_drift_bound:
  assumes "\<forall>k < length lines.
             \<bar>snd (draw_content_lines_fl lib args cf W ls (take k lines) (draw, y))\<bar> \<le> B \<and>
             \<bar>fl (snd (draw_content_lines_fl lib args cf W ls (take k lines) (draw, y))) + ls\<bar> \<le> B"
  shows "\<bar>snd (draw_content_lines_fl lib args cf W ls lines (draw, y)) - (y + of_nat (length lines) * ls)\<bar> \<le>
           2 * of_nat (length lines) * max (B / 2 ^ 53) (1 / 2 ^ 1075)"
proof -
  from assms have "\<forall>k < length lines. \<bar>fold (\<lambda>_ y. fl (fl y + ls)) (take k lines) y\<bar> \<le> B \<and>
                     \<bar>fl (fold (\<lambda>_ y. fl (fl y + ls)) (take k lines) y) + ls\<bar> \<le> B"
    by (simp add: draw_content_lines_fl_cursor)
  then have "\<bar>fold (\<lambda>_ y. fl (fl y + ls)) lines y - (y + of_nat (length lines) * ls)\<bar> \<le>
               2 * of_nat (length lines) * max (B / 2 ^ 53) (1 / 2 ^ 1075)"
    by (rule fold_fl_cursor_drift)
  then show ?thesis by (simp add: draw_content_lines_fl_cursor)
qed

end
