(* ===== verification/Spec2Isabelle.thy ===== *)
theory Spec2Isabelle
  imports Prelude PyStr PyFloat TextAlign Console ImagingLib DemoLib Renderer Composer ComposerSteps
    FloatCursor
begin

text \<open>
  \<^bold>\<open>A verification model of about-winter/demo, \<open>src/demo4.py\<close>.\<close>

  \<^bold>\<open>The program.\<close> \<open>src/demo4.py\<close> overlays a styled title and lines of body text
  on a background photo with Pillow. It has four parts:
  \<^item> the enumeration \<open>TextAlign\<close> (lines 8 to 11);
  \<^item> the composer \<open>create_styled_text_image\<close> (lines 14 to 120). It opens the
    background and converts it to RGBA with contrast 1.2. It creates a transparent
    layer \<open>txt\<close> of the same size and loads the two fonts, returning after a printed
    message if either step raises. It draws the title at \<open>height // 6\<close> and then the
    content lines with a running cursor \<open>content_y\<close>, skipping blank lines but
    advancing the cursor for them. Finally it composites the layer over the
    background, converts to RGB and saves with quality 95, printing the outcome;
  \<^item> the renderer \<open>draw_styled_text\<close> (lines 123 to 170). It measures the text,
    computes the x anchor from the alignment and the margins, draws
    \<open>(2w+1)\<^sup>2\<close> stroke copies and then the fill, and returns \<open>position_y\<close>;
  \<^item> the example entry point (lines 173 to 218).
  The composer calls the renderer once for the title and once per non-blank line.
  The two share one drawing surface, \<open>ImageDraw.Draw(txt)\<close>, which each call
  mutates in place. Every other effect is a Pillow call.

  \<^bold>\<open>The theories.\<close>
  \<^item> \<open>Prelude\<close>: the model's types (\<open>pystr\<close>, \<open>path\<close>, \<open>bbox\<close>, and
    \<open>py_result\<close> for a call that may raise, with the exception's text), Python's
    \<open>range\<close> (\<open>py_range\<close>), and the fold and append lemmas of the collection
    \<open>trace_simps\<close> that turn the source's loops into closed lists.
  \<^item> \<open>PyFloat\<close>: Python's \<open>float\<close> as binary64 rounding \<open>fl\<close> on exact rationals
    (round to nearest, ties to even), with its half-ulp error bound.
  \<^item> \<open>TextAlign\<close>: the enumeration of lines 8 to 11 as a datatype.
  \<^item> \<open>Console\<close>: the printed outcomes (\<open>message\<close>, each with the exception's text
    or the output path) and the exact f-string lines of lines 58, 68, 118 and 120
    (\<open>message_text\<close>), with the Chinese prefixes as code points.
  \<^item> \<open>PyStr\<close>: \<open>str.isspace\<close> and \<open>str.strip\<close> on code-point lists, and the
    blank-line test of line 97 (\<open>line_nonblank\<close>).
  \<^item> \<open>ImagingLib\<close>: the Pillow interface. \<open>imaging_lib\<close> is a record of
    parameters for the pixel work; opening, loading a font and saving return a
    \<open>py_result\<close>. The image record keeps size and mode, and
    \<open>alpha_composite\<close> fails unless both images are RGBA and of equal size. A draw
    call is \<open>DrawText (x, y) text font fill\<close>, and \<open>rasterize\<close> replays a list of
    them on a layer in order.
  \<^item> \<open>DemoLib\<close>: one concrete library instance, used only to evaluate the witnesses.
  \<^item> \<open>Renderer\<close>: \<open>bbox_width\<close> (lines 137 to 138), \<open>text_x_of\<close>
    (lines 140 to 149), \<open>draw_stroke\<close> (the nested loops, lines 151 to 160, as folds
    over \<open>py_range\<close>) and \<open>draw_styled_text\<close> (lines 123 to 170). It also holds their
    closed forms \<open>stroke_ops\<close> and \<open>styled_text_ops\<close>. The renderer's state is the
    list of draw calls made so far; it returns the extended list and
    \<open>position_y\<close>. \<open>ink_hspan\<close> is the span of columns that Pillow inks for a call,
    from the measured box and the anchor \<open>"la"\<close>.
  \<^item> \<open>Composer\<close>: the keyword arguments as the record \<open>create_args\<close> (defaults
    \<open>default_args\<close>, lines 18 to 40), the world (files written and lines
    printed), \<open>load_background\<close> (lines 53 to 59), \<open>load_fonts\<close>
    (lines 64 to 69), \<open>draw_title\<close> (lines 73 to 87), the content loop
    \<open>draw_content_lines\<close> (lines 95 to 111), \<open>render_text_layer\<close> (lines 71 to 111),
    \<open>save_output\<close> (lines 113 to 120) and \<open>create_styled_text_image\<close> (lines 14 to
    120). \<open>content_layout\<close> is the abstract specification of the content loop, and
    \<open>layer_op_ok\<close> the type of a call on the text layer.
  \<^item> \<open>ComposerSteps\<close>: the same composer as a state machine. The phase datatype has
    the states \<open>Start\<close>, \<open>Opened\<close>, \<open>FontsReady\<close>, \<open>Lines\<close> (one state per
    loop iteration), \<open>Finished\<close> and \<open>Raised\<close>. The inductive step relation
    \<open>compose_step\<close> has one rule per transition of the source, and \<open>layer_ok\<close> is
    the layer's size and mode condition.
  \<^item> \<open>FloatCursor\<close>: the content loop and the text-layer layout with the float
    product of line 93 and the float \<open>+=\<close> of line 111 rounded by \<open>fl\<close>
    (\<open>content_line_step_fl\<close>, \<open>draw_content_lines_fl\<close>, \<open>render_text_layer_fl\<close>).
  \<^item> \<open>Spec2Isabelle\<close> (this theory): the example entry point (\<open>example_main\<close>,
    lines 174 to 218), the inputs the witnesses use, and the witnesses of the
    composer's, the state machine's and the float cursor's theorems.

  \<^bold>\<open>Modelling choices.\<close>
  \<^item> Python \<open>int\<close> is \<open>int\<close>. Floor division \<open>//\<close> is \<open>div\<close>, which also rounds
    towards minus infinity, and this matters when the centring leftover is negative.
  \<^item> Python \<open>float\<close> (\<open>content_line_spacing\<close>, and \<open>content_y\<close> after its first
    \<open>+=\<close>) is \<open>rat\<close> in the Composer, so the arithmetic there is exact. The theory
    \<open>FloatCursor\<close> writes the cursor with binary64 rounding. C22 proves that it then
    places the lines exactly as specified when the spacing product is whole, which is
    the case for the defaults (\<open>40 * 1.5\<close>) and the example (\<open>180 * 1.0\<close>). C23 bounds
    the drift otherwise. The constant 1.2 of the contrast is \<open>6/5\<close>; it is only passed
    to the library.
  \<^item> A \<open>str\<close> is its list of code points, so the Chinese text of the example is
    modelled as written.
  \<^item> Every exception that the source catches is a branch of the model. The
    library call returns the exception's text \<open>str(e)\<close> (\<open>Inl\<close> of a
    \<open>py_result\<close>), and the composer prints the source's f-string with it. An
    exception that the source does not catch would be \<open>None\<close> of the composer's
    result (C13 shows there is none from \<open>alpha_composite\<close>, the one uncaught call the
    model lets fail). Python returns \<open>None\<close> on every path, so the only results are
    the world's files and printed lines.
  \<^item> No loop needs fuel. Every loop of the source runs over a finite list or range:
    folds over \<open>py_range\<close> in the renderer, structural recursion on the line list
    in \<open>draw_content_lines\<close>.

  \<^bold>\<open>What is proved\<close> (claim numbers as in the manifest).
  \<^item> Renderer: the loops equal the reference trace (C1). The number of draw calls
    is \<open>(2w+1)\<^sup>2 + 1\<close> or 1 (C2). Centred text that fits lies within the margins,
    balanced to one pixel (C3). The right-aligned fill is flush with the right margin
    (C4), and the left-aligned fill is at \<open>margin_left\<close> (C5). Without a guard,
    text that is too wide crosses the left margin (C6). The stroke footprint spans
    \<open>[x-w, x+w]\<close> at distinct positions, and the fill comes last (C7).
  \<^item> Composer: the content loop refines \<open>content_layout\<close> (C8). Blank lines draw
    nothing but advance the cursor (C9). The two early returns print and write
    nothing (C10, C11). The success path writes exactly the composited RGB image of
    the background's size with quality 95, or prints the save error (C12). No
    exception escapes from \<open>alpha_composite\<close> (C13). Only \<open>output_path\<close> changes and
    exactly one message is printed (C14). The layer receives one block of calls for
    the title and one for each non-blank line (C15).
  \<^item> The blank-line test is Python's whitespace test (C16).
  \<^item> State machine: every reachable state keeps the layer invariant, and \<open>Raised\<close>
    is never reached (C17, by rule induction).
  \<^item> Console: the printed line determines the outcome and its cause (C18).
  \<^item> Types: every call on the text layer uses the title's font and colours for the
    title, or the content font and colours for a non-blank line (C19).
  \<^item> Ink: right-aligned ink ends at \<open>image_width - margin_right + l\<close>, past the margin
    by the box's left offset \<open>l\<close> (C20). The ink of a stroked text spans exactly the
    measured span widened by \<open>w\<close> on each side (C21).
  \<^item> Floats: with Python's binary64 cursor the lines are placed exactly at
    \<open>y0 + i * L\<close> when \<open>content_font_size * content_line_spacing = L\<close> is whole and the
    cursor stays below \<open>2\<^sup>5\<^sup>3\<close> (C22, with a witness at the example's arguments).
    In general the drift after \<open>n\<close> lines is at most \<open>2n\<close> half-ulps of the cursor's
    range (C23).

  \<^bold>\<open>Not modelled.\<close>
  \<^item> Pillow's pixel semantics (decoding, contrast, glyph rasterisation, blending,
    encoding) are parameters. Consequently the visible effect of overlapping
    anti-aliased stroke copies is not modelled. The ink extent of a call is modelled
    only horizontally, from the measured box (\<open>ink_hspan\<close>).
  \<^item> The world's files are written but never read. \<open>decode\<close> and \<open>truetype\<close> are
    functions of the path, so the model does not cover a run that reads a file an
    earlier run wrote, for example when \<open>output_path\<close> equals \<open>background_path\<close>.
  \<^item> The encoder is assumed to write all or nothing. Pillow opens and truncates an
    existing output file before encoding, so a failed save can leave a truncated file
    where the model leaves the old one.
  \<^item> \<open>print\<close>, \<open>draw.textbbox\<close> and \<open>draw.text\<close> are total in the model. An exception
    from them (for example \<open>UnicodeEncodeError\<close> on a non-UTF-8 console) would
    escape the source uncaught; the model has no such branch.
  \<^item> The alignment argument is one of the three members. A non-member value reaches
    the \<open>else\<close> branch at line 148 and is right-aligned; this is a finding, not a
    theorem.
  \<^item> File-handle management is not modelled. The renderer's keyword defaults
    (lines 129 to 134) are not modelled, because every call in the program passes
    every argument. The comments and the import lines carry no behaviour.
  \<^item> Float overflow to infinity is not modelled; the program's floats are pixel
    coordinates far below \<open>2\<^sup>1\<^sup>0\<^sup>2\<^sup>4\<close>.
\<close>

section \<open>The example entry point and the scenario inputs of the witnesses\<close>

definition empty_world :: "unit world" where
  "empty_world = \<lparr>files = Map.empty, stdout = []\<rparr>"

definition example_title :: pystr where
  "example_title = [20320, 30340, 20154, 29983, 21462, 20915, 20110, 24403, 19979]"

definition example_content_lines :: "pystr list" where
  "example_content_lines =
     [[27963, 22312, 34, 22914, 26524, 24590, 26679, 24590, 26679, 34, 20043, 31867, 30340, 20551, 35774, 20043, 20013],
      [23601, 26681, 26412, 26080, 27861, 25913, 21464],
      [],
      [20320, 21482, 24819, 27963, 22312],
      [34, 22914, 26524, 26377, 26102, 38388, 25105, 20063, 21487, 20197, 34],
      [34, 21482, 35201, 29615, 22659, 20855, 22791, 25105, 20063, 21487, 20197, 34],
      [34, 33258, 24049, 26377, 36825, 31181, 25165, 33021, 34, 20043, 31867, 30340, 21487, 33021, 24615, 20013],
      [25110, 35768, 20877, 36807, 53, 24180, 25110, 49, 48, 24180],
      [20320, 21448, 20250, 24320, 22987, 20351, 29992],
      [34, 19981, 20877, 24180, 36731, 34, 34, 24050, 26377, 23478, 24237, 34, 20043, 31867, 30340, 20511, 21475]]"

definition example_args :: create_args where
  "example_args = default_args\<lparr>output_path := pystr_of ''custom_styled_output.jpg'',
     title_font_path := pystr_of ''msyh.ttc'', content_font_path := pystr_of ''simkai.ttf'',
     title_font_size := 280, content_font_size := 180,
     title_color := RGBc 0 0 0, content_color := RGBc 255 215 0,
     title_stroke_color := RGBc 255 255 255, content_stroke_color := RGBc 0 0 0,
     title_stroke_width := 15, content_stroke_width := 8,
     title_align := LEFT, content_align := LEFT,
     margin_left := 80, margin_right := 80,
     title_content_spacing := 400, content_line_spacing := 1\<rparr>"

definition example_main :: "('px, 'font) imaging_lib \<Rightarrow> 'px world \<Rightarrow> 'px world option" where
  "example_main lib w =
     create_styled_text_image lib (pystr_of ''people.jpg'') example_title example_content_lines example_args w"

definition scenario_args :: create_args where
  "scenario_args = default_args\<lparr>output_path := pystr_of ''out.jpg'',
     title_font_path := pystr_of ''font.ttf'', content_font_path := pystr_of ''font.ttf'',
     title_font_size := 100, content_font_size := 50, title_stroke_width := 0, content_stroke_width := 0,
     title_content_spacing := 20, content_line_spacing := 2\<rparr>"

definition scenario_lines :: "pystr list" where
  "scenario_lines = [pystr_of ''B'', [], pystr_of ''C'']"

lemmas scenario_defs = scenario_args_def scenario_lines_def default_args_def pystr_of_def empty_world_def

section \<open>Witnesses of the composer's theorems\<close>

theorem create_background_open_failure_witness:
  "decode demo_lib (pystr_of ''missing.jpg'') = Inl (pystr_of ''[Errno 2] No such file or directory'') \<and>
   create_styled_text_image demo_lib (pystr_of ''missing.jpg'') (pystr_of ''A'') scenario_lines scenario_args empty_world =
     Some (empty_world\<lparr>stdout := stdout empty_world @ [message_text (BackgroundOpenError (pystr_of ''[Errno 2] No such file or directory''))]\<rparr>)"
proof -
  have h: "decode demo_lib (pystr_of ''missing.jpg'') = Inl (pystr_of ''[Errno 2] No such file or directory'')" by (simp add: pystr_of_def)
  show ?thesis using h Composer.create_background_open_failure[OF h] by blast
qed

theorem create_font_load_failure_witness:
  "decode demo_lib (pystr_of ''bg.jpg'') = Inr (1000, 600, ()) \<and>
   (truetype demo_lib (title_font_path (scenario_args\<lparr>content_font_path := pystr_of ''nofont.ttf''\<rparr>))
        (title_font_size (scenario_args\<lparr>content_font_path := pystr_of ''nofont.ttf''\<rparr>)) = Inl (pystr_of ''cannot open resource'') \<or>
    (\<exists>tf. truetype demo_lib (title_font_path (scenario_args\<lparr>content_font_path := pystr_of ''nofont.ttf''\<rparr>))
        (title_font_size (scenario_args\<lparr>content_font_path := pystr_of ''nofont.ttf''\<rparr>)) = Inr tf \<and>
     truetype demo_lib (content_font_path (scenario_args\<lparr>content_font_path := pystr_of ''nofont.ttf''\<rparr>))
        (content_font_size (scenario_args\<lparr>content_font_path := pystr_of ''nofont.ttf''\<rparr>)) = Inl (pystr_of ''cannot open resource''))) \<and>
   create_styled_text_image demo_lib (pystr_of ''bg.jpg'') (pystr_of ''A'') scenario_lines
     (scenario_args\<lparr>content_font_path := pystr_of ''nofont.ttf''\<rparr>) empty_world =
     Some (empty_world\<lparr>stdout := stdout empty_world @ [message_text (FontLoadError (pystr_of ''cannot open resource''))]\<rparr>)"
proof -
  have h1: "decode demo_lib (pystr_of ''bg.jpg'') = Inr (1000, 600, ())" by (simp add: pystr_of_def)
  have h2: "truetype demo_lib (title_font_path (scenario_args\<lparr>content_font_path := pystr_of ''nofont.ttf''\<rparr>))
        (title_font_size (scenario_args\<lparr>content_font_path := pystr_of ''nofont.ttf''\<rparr>)) = Inl (pystr_of ''cannot open resource'') \<or>
    (\<exists>tf. truetype demo_lib (title_font_path (scenario_args\<lparr>content_font_path := pystr_of ''nofont.ttf''\<rparr>))
        (title_font_size (scenario_args\<lparr>content_font_path := pystr_of ''nofont.ttf''\<rparr>)) = Inr tf \<and>
     truetype demo_lib (content_font_path (scenario_args\<lparr>content_font_path := pystr_of ''nofont.ttf''\<rparr>))
        (content_font_size (scenario_args\<lparr>content_font_path := pystr_of ''nofont.ttf''\<rparr>)) = Inl (pystr_of ''cannot open resource''))"
    by (simp add: scenario_defs)
  show ?thesis using h1 h2 Composer.create_font_load_failure[OF h1 h2] by blast
qed

theorem create_output_image_witness:
  "decode demo_lib (pystr_of ''bg.jpg'') = Inr (1000, 600, ()) \<and>
   truetype demo_lib (title_font_path scenario_args) (title_font_size scenario_args) = Inr 100 \<and>
   truetype demo_lib (content_font_path scenario_args) (content_font_size scenario_args) = Inr 50 \<and>
   (let layer = rasterize demo_lib (image_new demo_lib RGBA (1000, 600) (RGBAc 255 255 255 0))
                  (render_text_layer demo_lib scenario_args (pystr_of ''A'') scenario_lines 100 50 1000 600);
        out = \<lparr>img_size = (1000, 600), img_mode = RGB,
               img_pixels = to_rgb demo_lib (blend demo_lib (contrast demo_lib (6 / 5) (to_rgba demo_lib ())) (img_pixels layer))\<rparr>
    in create_styled_text_image demo_lib (pystr_of ''bg.jpg'') (pystr_of ''A'') scenario_lines scenario_args empty_world =
         Some (case encode demo_lib (output_path scenario_args) 95 (img_pixels out) of
                 Inr _ \<Rightarrow> empty_world\<lparr>files := (files empty_world)(output_path scenario_args \<mapsto> (out, 95)),
                                stdout := stdout empty_world @ [message_text (SavedTo (output_path scenario_args))]\<rparr>
               | Inl e \<Rightarrow> empty_world\<lparr>stdout := stdout empty_world @ [message_text (SaveError e)]\<rparr>))"
proof -
  have h1: "decode demo_lib (pystr_of ''bg.jpg'') = Inr (1000, 600, ())" by (simp add: pystr_of_def)
  have h2: "truetype demo_lib (title_font_path scenario_args) (title_font_size scenario_args) = Inr 100"
    by (simp add: scenario_defs)
  have h3: "truetype demo_lib (content_font_path scenario_args) (content_font_size scenario_args) = Inr 50"
    by (simp add: scenario_defs)
  show ?thesis using h1 h2 h3 Composer.create_output_image[OF h1 h2 h3] by blast
qed

theorem create_frame_witness:
  "create_styled_text_image demo_lib (pystr_of ''bg.jpg'') (pystr_of ''A'') scenario_lines scenario_args empty_world =
     Some (empty_world\<lparr>files := (files empty_world)(pystr_of ''out.jpg'' \<mapsto>
             (\<lparr>img_size = (1000, 600), img_mode = RGB, img_pixels = ()\<rparr>, 95)),
           stdout := [message_text (SavedTo (pystr_of ''out.jpg''))]\<rparr>) \<and>
   files (empty_world\<lparr>files := (files empty_world)(pystr_of ''out.jpg'' \<mapsto>
             (\<lparr>img_size = (1000, 600), img_mode = RGB, img_pixels = ()\<rparr>, 95)),
           stdout := [message_text (SavedTo (pystr_of ''out.jpg''))]\<rparr>) (pystr_of ''bg.jpg'') = files empty_world (pystr_of ''bg.jpg'') \<and>
   (\<exists>m. stdout (empty_world\<lparr>files := (files empty_world)(pystr_of ''out.jpg'' \<mapsto>
             (\<lparr>img_size = (1000, 600), img_mode = RGB, img_pixels = ()\<rparr>, 95)),
           stdout := [message_text (SavedTo (pystr_of ''out.jpg''))]\<rparr>) = stdout empty_world @ [message_text m])"
proof -
  have h: "create_styled_text_image demo_lib (pystr_of ''bg.jpg'') (pystr_of ''A'') scenario_lines scenario_args empty_world =
     Some (empty_world\<lparr>files := (files empty_world)(pystr_of ''out.jpg'' \<mapsto>
             (\<lparr>img_size = (1000, 600), img_mode = RGB, img_pixels = ()\<rparr>, 95)),
           stdout := [message_text (SavedTo (pystr_of ''out.jpg''))]\<rparr>)"
    by (simp add: composer_pipeline_simps save_output_layer scenario_defs)
  have other: "pystr_of ''bg.jpg'' \<noteq> output_path scenario_args"
    by (simp add: scenario_defs)
  from Composer.create_frame[OF h] other h show ?thesis by blast
qed

section \<open>Witnesses of the state-machine theorems\<close>

theorem compose_reachable_layer_ok_witness:
  "(compose_step demo_lib (pystr_of ''bg.jpg'') (pystr_of ''A'') scenario_lines scenario_args empty_world)\<^sup>*\<^sup>*
      Start (Opened \<lparr>img_size = (1000, 600), img_mode = RGBA, img_pixels = ()\<rparr>
               (image_new demo_lib RGBA (img_size \<lparr>img_size = (1000, 600), img_mode = RGBA, img_pixels = ()\<rparr>)
                  (RGBAc 255 255 255 0))) \<and>
   layer_ok (Opened \<lparr>img_size = (1000, 600), img_mode = RGBA, img_pixels = ()\<rparr>
               (image_new demo_lib RGBA (img_size \<lparr>img_size = (1000, 600), img_mode = RGBA, img_pixels = ()\<rparr>)
                  (RGBAc 255 255 255 0)) :: (unit, int) phase)"
proof -
  have h: "load_background demo_lib (pystr_of ''bg.jpg'') = Inr \<lparr>img_size = (1000, 600), img_mode = RGBA, img_pixels = ()\<rparr>"
    by (simp add: load_background_eq pystr_of_def)
  have reach: "(compose_step demo_lib (pystr_of ''bg.jpg'') (pystr_of ''A'') scenario_lines scenario_args empty_world)\<^sup>*\<^sup>*
      Start (Opened \<lparr>img_size = (1000, 600), img_mode = RGBA, img_pixels = ()\<rparr>
               (image_new demo_lib RGBA (img_size \<lparr>img_size = (1000, 600), img_mode = RGBA, img_pixels = ()\<rparr>)
                  (RGBAc 255 255 255 0)))"
    by (rule r_into_rtranclp, rule compose_step.open_ok[OF h])
  show ?thesis using reach ComposerSteps.compose_reachable_layer_ok[OF reach] by blast
qed

section \<open>Witness of the float cursor theorem\<close>

theorem float_cursor_exact_witness:
  "render_text_layer_fl demo_lib example_args example_title example_content_lines 280 180 1920 1080 =
     title_block demo_lib example_args 280 (int 1920) (int 1080 div 6) example_title @
     concat (map (content_block demo_lib example_args 180 (int 1920))
       (content_layout (of_int (int 1080 div 6 + title_font_size example_args + title_content_spacing example_args))
          (of_int 180) example_content_lines))"
proof -
  have h1: "of_int (content_font_size example_args) * content_line_spacing example_args = of_int (180::int)"
    by (simp add: example_args_def default_args_def)
  have h2: "\<bar>content_font_size example_args\<bar> < 2 ^ 53"
    by (simp add: example_args_def default_args_def)
  have h3: "\<bar>180::int\<bar> < 2 ^ 53" by simp
  have h4: "\<forall>i \<le> length example_content_lines.
              \<bar>int 1080 div 6 + title_font_size example_args + title_content_spacing example_args + int i * 180\<bar> < 2 ^ 53"
    by (auto simp: example_args_def default_args_def example_content_lines_def)
  show ?thesis using FloatCursor.float_cursor_exact[OF h1 h2 h3 h4] .
qed

theorem float_cursor_drift_bound_witness:
  "\<bar>snd (draw_content_lines_fl demo_lib default_args 21 1000 (7093169413108531 / 281474976710656) [[]] ([], 171)) -
     (171 + of_nat (length [[] :: pystr]) * (7093169413108531 / 281474976710656))\<bar> \<le>
   2 * of_nat (length [[] :: pystr]) * max (400 / 2 ^ 53) (1 / 2 ^ 1075)"
proof -
  have f: "fl 171 = 171" using fl_of_int[of 171] by simp
  have h: "\<forall>k < length [[] :: pystr].
             \<bar>snd (draw_content_lines_fl demo_lib default_args 21 1000 (7093169413108531 / 281474976710656)
                     (take k [[]]) ([], 171))\<bar> \<le> 400 \<and>
             \<bar>fl (snd (draw_content_lines_fl demo_lib default_args 21 1000 (7093169413108531 / 281474976710656)
                     (take k [[]]) ([], 171))) + 7093169413108531 / 281474976710656\<bar> \<le> 400"
    by (simp add: f)
  show ?thesis using FloatCursor.float_cursor_drift_bound[OF h] .
qed

end
